theory Spec2Isabelle
  imports Complex_Main
begin

section \<open>Python values, errors and the configuration dictionary\<close>

text \<open>
  The optimizer of \<^verbatim>\<open>policy_optimization.py\<close> (class \<^verbatim>\<open>PPOptimizer\<close>) is embedded
  here. Tensors hold floating-point numbers in the source; the embedding computes over
  the reals, so rounding, \<^verbatim>\<open>nan\<close> and \<^verbatim>\<open>inf\<close> are outside the model. Every place where
  the Python raises is a branch that returns the error.
\<close>

datatype py_error =
    KeyError string
  | ValueError string
  | TypeError string
  | ZeroDivisionError

text \<open>The values a configuration dictionary holds in the source.\<close>

datatype cval =
    CNone
  | CBool bool
  | CInt int
  | CFloat real
  | CStr string
  | CTuple "cval list"
  | CDict "(string \<times> cval) list"

type_synonym pydict = "string \<rightharpoonup> cval"

text \<open>\<^verbatim>\<open>d[key]\<close> raises \<^verbatim>\<open>KeyError\<close> on a missing key; \<^verbatim>\<open>d.get(key)\<close> returns \<^verbatim>\<open>None\<close>.\<close>

definition getitem :: "pydict \<Rightarrow> string \<Rightarrow> py_error + cval" where
  "getitem d k = (case d k of None \<Rightarrow> Inl (KeyError k) | Some v \<Rightarrow> Inr v)"

definition dict_get :: "pydict \<Rightarrow> string \<Rightarrow> cval" where
  "dict_get d k = (case d k of None \<Rightarrow> CNone | Some v \<Rightarrow> v)"

text \<open>Truth value of a Python object in an \<^verbatim>\<open>if\<close>.\<close>

fun truthy :: "cval \<Rightarrow> bool" where
  "truthy CNone = False"
| "truthy (CBool b) = b"
| "truthy (CInt n) = (n \<noteq> 0)"
| "truthy (CFloat x) = (x \<noteq> 0)"
| "truthy (CStr s) = (s \<noteq> [])"
| "truthy (CTuple vs) = (vs \<noteq> [])"
| "truthy (CDict kvs) = (kvs \<noteq> [])"

text \<open>
  A configuration value used in arithmetic with a float or a tensor: numbers (and
  booleans, which are integers in Python) take part, anything else raises \<^verbatim>\<open>TypeError\<close>.
\<close>

fun num_of :: "cval \<Rightarrow> py_error + real" where
  "num_of (CBool b) = Inr (if b then 1 else 0)"
| "num_of (CInt n) = Inr (real_of_int n)"
| "num_of (CFloat x) = Inr x"
| "num_of v = Inl (TypeError ''unsupported operand type(s)'')"

text \<open>\<^verbatim>\<open>range(n)\<close>: the indices \<open>0, \<dots>, n - 1\<close>, none for \<open>n \<le> 0\<close>; \<open>n\<close> must be an integer.\<close>

fun py_range :: "cval \<Rightarrow> py_error + nat list" where
  "py_range (CInt n) = Inr [0 ..< nat n]"
| "py_range (CBool b) = Inr [0 ..< (if b then 1 else 0)]"
| "py_range v = Inl (TypeError ''object cannot be interpreted as an integer'')"

subsection \<open>\<^verbatim>\<open>PPOptimizer.__init__\<close>\<close>

definition default_config :: pydict where
  "default_config = map_of
     [(''optimizer'', CStr ''adam''),
      (''optimizer_kwargs'',
         CDict [(''lr'', CFloat (1 / 10 ^ 3)),
                (''betas'', CTuple [CFloat (9 / 10), CFloat (999 / 1000)]),
                (''eps'', CFloat (1 / 10 ^ 7)),
                (''weight_decay'', CInt 0),
                (''amsgrad'', CBool False)]),
      (''separate_optimizers'', CBool False),
      (''gamma'', CFloat (95 / 100)),
      (''ppo_steps'', CInt 25),
      (''eps'', CFloat (1 / 10)),
      (''target_kl'', CFloat (1 / 100)),
      (''value_loss_coeff'', CFloat (1 / 10)),
      (''entropy_coeff'', CFloat (1 / 10)),
      (''entropy_decay_time'', CInt 100),
      (''min_entropy'', CFloat (1 / 10 ^ 4)),
      (''max_grad_norm'', CFloat (1 / 2)),
      (''pad_sequences'', CBool False),
      (''use_gpu'', CBool False)]"

text \<open>
  Modelled from the spec: \<^verbatim>\<open>with_default_config\<close> lives in \<^verbatim>\<open>utils\<close>, which is not among
  the sources. The specification says that the supplied mapping overrides any subset of
  the default keys, and that it is merged over the documented defaults without
  validation: a key of the caller wins, a key the caller left out takes its default.
\<close>

definition with_default_config :: "pydict \<Rightarrow> pydict \<Rightarrow> pydict" where
  "with_default_config conf dflt = dflt ++ conf"

text \<open>
  The fields \<^verbatim>\<open>self.config\<close>, \<^verbatim>\<open>self.gamma\<close> and \<^verbatim>\<open>self.eps\<close>. The per-agent optimizers
  built by \<^verbatim>\<open>get_optimizer\<close> act through the functions \<open>backward\<close>, \<open>clip_grad_norm\<close> and
  \<open>optimizer_step\<close> of the collaborators, below.
\<close>

record ppoptimizer =
  config :: pydict
  gamma :: cval
  eps :: cval

definition PPOptimizer_init :: "pydict \<Rightarrow> py_error + ppoptimizer" where
  "PPOptimizer_init conf =
     (let c = with_default_config conf default_config in
      case getitem c ''gamma'' of Inl e \<Rightarrow> Inl e | Inr g \<Rightarrow>
      case getitem c ''eps'' of Inl e \<Rightarrow> Inl e | Inr ep \<Rightarrow>
        Inr \<lparr>config = c, gamma = g, eps = ep\<rparr>)"

section \<open>\<^verbatim>\<open>train_on_data\<close>\<close>

subsection \<open>The entropy coefficient (lines 90 to 93)\<close>

text \<open>
  \<^verbatim>\<open>max(config.get("entropy_coeff") * 0.1**(step/config.get("entropy_decay_time")),
      config.get("min_entropy"))\<close>.
  Python evaluates the quotient first (a zero divisor raises), then the product, then
  \<^verbatim>\<open>max\<close>.
\<close>

definition entropy_coeff_at :: "pydict \<Rightarrow> int \<Rightarrow> py_error + real" where
  "entropy_coeff_at c step =
     (case num_of (dict_get c ''entropy_decay_time'') of Inl e \<Rightarrow> Inl e | Inr t \<Rightarrow>
      if t = 0 then Inl ZeroDivisionError
      else (case num_of (dict_get c ''entropy_coeff'') of Inl e \<Rightarrow> Inl e | Inr b \<Rightarrow>
            (case num_of (dict_get c ''min_entropy'') of Inl e \<Rightarrow> Inl e | Inr m \<Rightarrow>
               Inr (max (b * (1 / 10) powr (real_of_int step / t)) m))))"

subsection \<open>Tensors, batches and the collaborators of the optimizer\<close>

text \<open>
  A tensor of per-step scalars is the list of its entries, one per position of the
  batch; the skill vectors form a list of lists. The data-model invariant that all
  fields of one agent's batch have the same shape is assumed: element-wise operations
  pair the entries position by position.

  The record below holds the fields of an \<^verbatim>\<open>AgentDataBatch\<close> that the optimizer reads
  (lines 117 to 121). Observations, actions and recurrent states are read by the agent
  only.
\<close>

record agent_batch =
  rewards :: "real list"
  logprobs :: "real list"
  dones :: "bool list"
  toms :: "real list list"

text \<open>
  Modelled from the spec: \<^verbatim>\<open>masked_mean\<close> lives in \<^verbatim>\<open>utils\<close>, which is not among the
  sources. The specification defines it as the mean over the positions where the mask
  is true: the weighted sum divided by the mask sum, never by the raw element count.
\<close>

definition masked_mean :: "real list \<Rightarrow> real list \<Rightarrow> real" where
  "masked_mean x msk = sum_list (map2 (*) x msk) / sum_list msk"

text \<open>
  What \<^verbatim>\<open>agent.evaluate_actions\<close> returns. The class \<^verbatim>\<open>Agent\<close> is not among the sources;
  its contract in the specification is a tuple of log-probabilities, value estimates
  and entropies, with a skill prediction as an optional fourth component.
\<close>

datatype eval_result =
    Eval3 "real list" "real list" "real list"
  | Eval4 "real list" "real list" "real list" "real list list"

fun arity :: "eval_result \<Rightarrow> nat" where
  "arity (Eval3 lp vb ent) = 3"
| "arity (Eval4 lp vb ent sm) = 4"

text \<open>The tuple assignments of lines 124 and 156: a tuple of another length raises.\<close>

fun unpack3 :: "eval_result \<Rightarrow> py_error + (real list \<times> real list \<times> real list)" where
  "unpack3 (Eval3 lp vb ent) = Inr (lp, vb, ent)"
| "unpack3 (Eval4 lp vb ent sm) = Inl (ValueError ''too many values to unpack (expected 3)'')"

fun unpack4 ::
  "eval_result \<Rightarrow> py_error + (real list \<times> real list \<times> real list \<times> real list list)" where
  "unpack4 (Eval4 lp vb ent sm) = Inr (lp, vb, ent, sm)"
| "unpack4 (Eval3 lp vb ent) =
     Inl (ValueError ''not enough values to unpack (expected 4, got 3)'')"

text \<open>
  The code the optimizer calls but does not contain, as parameters. The type \<open>'s\<close> is
  the state of the agent object (its model parameters and whatever else it keeps), which
  the calls mutate in place: \<open>evaluate_actions\<close> is the agent's method, \<open>backward\<close> stands
  for \<^verbatim>\<open>optimizer.zero_grad(); loss.backward()\<close> on the loss just computed,
  \<open>clip_grad_norm\<close> for \<^verbatim>\<open>nn.utils.clip_grad_norm_\<close> and \<open>optimizer_step\<close> for
  \<^verbatim>\<open>optimizer.step()\<close>; \<open>simple_padder\<close> and \<open>discount_rewards_to_go\<close> are the helpers
  of \<^verbatim>\<open>preprocessors\<close> and \<^verbatim>\<open>utils\<close>.
\<close>

record 's collaborators =
  evaluate_actions :: "'s \<Rightarrow> agent_batch \<Rightarrow> cval \<Rightarrow> eval_result \<times> 's"
  backward :: "'s \<Rightarrow> real \<Rightarrow> 's"
  clip_grad_norm :: "'s \<Rightarrow> real \<Rightarrow> 's"
  optimizer_step :: "'s \<Rightarrow> 's"
  simple_padder :: "agent_batch \<Rightarrow> agent_batch \<times> real list"
  discount_rewards_to_go :: "real list \<Rightarrow> bool list \<Rightarrow> cval \<Rightarrow> cval \<Rightarrow> real list"

subsection \<open>Sequence preparation (lines 106 to 111)\<close>

text \<open>
  \<^verbatim>\<open>torch.ones_like(agent_batch['rewards'])\<close> when sequences are not padded. The episode
  lengths computed here are only used by the episode statistics.
\<close>

definition prepare_mask ::
  "'s collaborators \<Rightarrow> agent_batch \<Rightarrow> cval \<Rightarrow> agent_batch \<times> real list" where
  "prepare_mask ext b pad =
     (if truthy pad then simple_padder ext b
      else (b, replicate (length (rewards b)) 1))"

subsection \<open>Advantage normalisation (lines 139 to 141)\<close>

definition centred_advantages :: "real list \<Rightarrow> real list \<Rightarrow> real list \<Rightarrow> real list" where
  "centred_advantages discounted vals msk =
     (let advantages = map2 (-) discounted vals
      in map (\<lambda>a. a - masked_mean advantages msk) advantages)"

definition normalized_advantages :: "real list \<Rightarrow> real list \<Rightarrow> real list \<Rightarrow> real list" where
  "normalized_advantages discounted vals msk =
     (let advantages = centred_advantages discounted vals msk
      in map (\<lambda>a. a / (sqrt (masked_mean (map (\<lambda>y. y\<^sup>2) advantages) msk) + 1 / 10 ^ 8))
           advantages)"

subsection \<open>The loss (lines 167 to 184)\<close>

text \<open>The surrogate loss as the code computes it (lines 167 to 174).\<close>

definition surrogate_loss :: "real \<Rightarrow> real list \<Rightarrow> real list \<Rightarrow> real list \<Rightarrow> real list" where
  "surrogate_loss e new_lp old_lp adv =
     (let prob_ratio = map2 (\<lambda>l ol. exp (l - ol)) new_lp old_lp;
          surr1 = map2 (*) prob_ratio adv;
          surr2 = map (\<lambda>a. if a > 0 then (1 + e) * a else (1 - e) * a) adv
      in map uminus (map2 min surr1 surr2))"

text \<open>
  The symmetric form the specification names (and line 169 keeps as a comment): the
  ratio is clamped into \<open>[1 - e, 1 + e]\<close> before it is multiplied by the advantage.
\<close>

definition clamp :: "real \<Rightarrow> real \<Rightarrow> real \<Rightarrow> real" where
  "clamp x lo hi = min (max x lo) hi"

definition surrogate_loss_clamped ::
  "real \<Rightarrow> real list \<Rightarrow> real list \<Rightarrow> real list \<Rightarrow> real list" where
  "surrogate_loss_clamped e new_lp old_lp adv =
     (let prob_ratio = map2 (\<lambda>l ol. exp (l - ol)) new_lp old_lp;
          surr1 = map2 (*) prob_ratio adv;
          surr2 = map2 (*) (map (\<lambda>r. clamp r (1 - e) (1 + e)) prob_ratio) adv
      in map uminus (map2 min surr1 surr2))"

definition squared_error :: "real list \<Rightarrow> real list \<Rightarrow> real list" where
  "squared_error vals discounted = map2 (\<lambda>v d. (v - d)\<^sup>2) vals discounted"

text \<open>\<^verbatim>\<open>torch.sum((sm_batch - tom_batch) ** 2, dim=-1)\<close>.\<close>

definition skill_loss :: "real list list \<Rightarrow> real list list \<Rightarrow> real list" where
  "skill_loss sm tom = map2 (\<lambda>p t. sum_list (map2 (\<lambda>a b. (a - b)\<^sup>2) p t)) sm tom"

subsection \<open>The update loop (lines 144 to 191)\<close>

text \<open>
  The local variables the loop reads and writes, together with the state of the agent
  object. The two counters record how often \<^verbatim>\<open>loss.backward()\<close> and \<^verbatim>\<open>optimizer.step()\<close>
  ran; they stand for the effects of these calls and are read by no computation.
\<close>

record 's loop_vars =
  agent_state :: 's
  backward_calls :: nat
  optimizer_steps :: nat
  ppo_step :: int
  kl_divergence :: real
  logprob_batch :: "real list"
  value_batch :: "real list"
  entropy_batch :: "real list"
  sm_batch :: "real list list"
  policy_loss :: "real list"
  value_loss :: "real list"
  sm_loss :: "real list"
  loss :: real

text \<open>What the loop reads and never writes.\<close>

record loop_ctx =
  cfg :: pydict
  clip_eps :: cval
  padded :: cval
  the_batch :: agent_batch
  the_mask :: "real list"
  old_logprobs_batch :: "real list"
  advantages_batch :: "real list"
  discounted_batch :: "real list"
  tom_batch :: "real list list"
  entropy_coeff :: real

text \<open>
  How a part of the loop body ends: with an exception, with \<^verbatim>\<open>break\<close>, or by falling
  through to what follows. The variables are returned in each case, since the agent
  object and the locals keep whatever was assigned before an exception.
\<close>

datatype 's outcome =
    Raised py_error "'s loop_vars"
  | Broke "'s loop_vars"
  | Continued "'s loop_vars"

text \<open>The variables as a part of the loop body leaves them, however it ends.\<close>

fun outcome_vars :: "'s outcome \<Rightarrow> 's loop_vars" where
  "outcome_vars (Raised e v) = v"
| "outcome_vars (Broke v) = v"
| "outcome_vars (Continued v) = v"

text \<open>Lines 156 to 163: evaluate the agent again, estimate the KL divergence, stop early.\<close>

definition kl_check :: "'s collaborators \<Rightarrow> loop_ctx \<Rightarrow> nat \<Rightarrow> 's loop_vars \<Rightarrow> 's outcome" where
  "kl_check ext c i v0 =
     (let v1 = v0\<lparr>ppo_step := int i\<rparr>;
          (res, s') = evaluate_actions ext (agent_state v1) (the_batch c) (padded c);
          v2 = v1\<lparr>agent_state := s'\<rparr>
      in case unpack4 res of
           Inl e \<Rightarrow> Raised e v2
         | Inr (lp, vb, ent, sm) \<Rightarrow>
             (let v3 = v2\<lparr>logprob_batch := lp, value_batch := vb, entropy_batch := ent,
                          sm_batch := sm,
                          kl_divergence :=
                            masked_mean (map2 (-) (old_logprobs_batch c) lp) (the_mask c)\<rparr>
              in case getitem (cfg c) ''target_kl'' of
                   Inl e \<Rightarrow> Raised e v3
                 | Inr t \<Rightarrow>
                     (case num_of t of
                        Inl e \<Rightarrow> Raised e v3
                      | Inr target_kl \<Rightarrow>
                          if kl_divergence v3 > target_kl then Broke v3 else Continued v3)))"

text \<open>Lines 167 to 184: the loss of this iteration.\<close>

definition compute_loss :: "loop_ctx \<Rightarrow> 's loop_vars \<Rightarrow> 's outcome" where
  "compute_loss c v0 =
     (case num_of (clip_eps c) of
        Inl e \<Rightarrow> Raised e v0
      | Inr e \<Rightarrow>
          (let v1 = v0\<lparr>policy_loss :=
                         surrogate_loss e (logprob_batch v0) (old_logprobs_batch c)
                           (advantages_batch c),
                       value_loss := squared_error (value_batch v0) (discounted_batch c)\<rparr>
           in case getitem (cfg c) ''value_loss_coeff'' of
                Inl e \<Rightarrow> Raised e v1
              | Inr vc \<Rightarrow>
                  (case num_of vc of
                     Inl e \<Rightarrow> Raised e v1
                   | Inr value_loss_coeff \<Rightarrow>
                       (let v2 = v1\<lparr>loss :=
                               masked_mean (policy_loss v1) (the_mask c)
                               + value_loss_coeff * masked_mean (value_loss v1) (the_mask c)
                               - entropy_coeff c * masked_mean (entropy_batch v1) (the_mask c)\<rparr>
                        in case getitem (cfg c) ''use_sm'' of
                             Inl e \<Rightarrow> Raised e v2
                           | Inr use_sm \<Rightarrow>
                               if truthy use_sm then
                                 (let v3 = v2\<lparr>sm_loss := skill_loss (sm_batch v2) (tom_batch c)\<rparr>
                                  in case getitem (cfg c) ''sm_coeff'' of
                                       Inl e \<Rightarrow> Raised e v3
                                     | Inr sc \<Rightarrow>
                                         (case num_of sc of
                                            Inl e \<Rightarrow> Raised e v3
                                          | Inr sm_coeff \<Rightarrow>
                                              Continued (v3\<lparr>loss := loss v3
                                                + sm_coeff * masked_mean (sm_loss v3) (the_mask c)\<rparr>)))
                               else Continued v2))))"

text \<open>Lines 187 to 191: the update step.\<close>

definition update_step :: "'s collaborators \<Rightarrow> loop_ctx \<Rightarrow> 's loop_vars \<Rightarrow> 's outcome" where
  "update_step ext c v0 =
     (let v1 = v0\<lparr>agent_state := backward ext (agent_state v0) (loss v0),
                  backward_calls := Suc (backward_calls v0)\<rparr>
      in case getitem (cfg c) ''max_grad_norm'' of
           Inl e \<Rightarrow> Raised e v1
         | Inr CNone \<Rightarrow>
             Continued (v1\<lparr>agent_state := optimizer_step ext (agent_state v1),
                            optimizer_steps := Suc (optimizer_steps v1)\<rparr>)
         | Inr g \<Rightarrow>
             (case num_of g of
                Inl e \<Rightarrow> Raised e v1
              | Inr max_grad_norm \<Rightarrow>
                  (let v2 = v1\<lparr>agent_state := clip_grad_norm ext (agent_state v1) max_grad_norm\<rparr>
                   in Continued (v2\<lparr>agent_state := optimizer_step ext (agent_state v2),
                                    optimizer_steps := Suc (optimizer_steps v2)\<rparr>))))"

definition ppo_iteration ::
  "'s collaborators \<Rightarrow> loop_ctx \<Rightarrow> nat \<Rightarrow> 's loop_vars \<Rightarrow> 's outcome" where
  "ppo_iteration ext c i v =
     (case kl_check ext c i v of
        Continued v1 \<Rightarrow>
          (case compute_loss c v1 of
             Continued v2 \<Rightarrow> update_step ext c v2
           | r \<Rightarrow> r)
      | r \<Rightarrow> r)"

text \<open>
  \<^verbatim>\<open>for ppo_step in range(...)\<close>: the recursion runs over the indices that remain. The
  result is the exception, if one was raised, and the variables as the loop leaves them.
\<close>

fun ppo_loop ::
  "'s collaborators \<Rightarrow> loop_ctx \<Rightarrow> nat list \<Rightarrow> 's loop_vars \<Rightarrow> py_error option \<times> 's loop_vars"
  where
  "ppo_loop ext c [] v = (None, v)"
| "ppo_loop ext c (i # rest) v =
     (case ppo_iteration ext c i v of
        Raised e v' \<Rightarrow> (Some e, v')
      | Broke v' \<Rightarrow> (None, v')
      | Continued v' \<Rightarrow> ppo_loop ext c rest v')"

subsection \<open>The update of one agent (lines 96 to 205)\<close>

text \<open>
  Lines 198 to 205. The wall-clock entry \<^verbatim>\<open>time_update\<close> is left out. The losses start
  as \<^verbatim>\<open>torch.tensor(0)\<close>, which the masked mean broadcasts against the mask; they are
  zero tensors of the mask's shape here.
\<close>

definition training_metrics ::
  "string \<Rightarrow> real list \<Rightarrow> 's loop_vars \<Rightarrow> (string \<rightharpoonup> real) \<Rightarrow> (string \<rightharpoonup> real)" where
  "training_metrics agent_id msk v metrics = metrics
     (agent_id @ ''/kl_divergence'' \<mapsto> kl_divergence v,
      agent_id @ ''/ppo_steps_made'' \<mapsto> real_of_int (ppo_step v + 1),
      agent_id @ ''/policy_loss'' \<mapsto> masked_mean (policy_loss v) msk,
      agent_id @ ''/value_loss'' \<mapsto> masked_mean (value_loss v) msk,
      agent_id @ ''/sm_loss'' \<mapsto> masked_mean (sm_loss v) msk,
      agent_id @ ''/total_loss'' \<mapsto> loss v,
      agent_id @ ''/total_steps'' \<mapsto> sum_list msk)"

definition initial_vars ::
  "'s \<Rightarrow> real list \<Rightarrow> real list \<Rightarrow> real list \<Rightarrow> real list \<Rightarrow> 's loop_vars" where
  "initial_vars s msk lp vb ent =
     \<lparr>agent_state = s, backward_calls = 0, optimizer_steps = 0, ppo_step = - 1,
      kl_divergence = 0, logprob_batch = lp, value_batch = vb, entropy_batch = ent,
      sm_batch = [], policy_loss = replicate (length msk) 0,
      value_loss = replicate (length msk) 0, sm_loss = replicate (length msk) 0,
      loss = 0\<rparr>"

text \<open>
  Lines 117 to 141: the fields of the batch, the discounted returns and the normalised
  advantages, which the loop only reads.
\<close>

definition loop_context ::
  "'s collaborators \<Rightarrow> ppoptimizer \<Rightarrow> agent_batch \<Rightarrow> real list \<Rightarrow> cval \<Rightarrow> real list \<Rightarrow> real
    \<Rightarrow> loop_ctx" where
  "loop_context ext self b msk pad vb ec =
     (let discounted = discount_rewards_to_go ext (rewards b) (dones b) (gamma self) pad
      in \<lparr>cfg = config self, clip_eps = eps self, padded = pad, the_batch = b,
          the_mask = msk, old_logprobs_batch = logprobs b,
          advantages_batch = normalized_advantages discounted vb msk,
          discounted_batch = discounted, tom_batch = toms b, entropy_coeff = ec\<rparr>)"

text \<open>
  The body of the loop over the agents, for one agent, up to the training metrics. It
  returns the exception, if one was raised, the state of the agent object and the
  metrics dictionary. Moving the batch and the agent between devices (lines 102 to 104,
  135, 136 and 195) changes no value. The episode statistics that follow line 205 rest
  on helpers that are not among the sources (and on \<^verbatim>\<open>get_final_action_ratios\<close>, a name
  the module neither defines nor imports); they are not part of this embedding.
\<close>

definition update_agent ::
  "'s collaborators \<Rightarrow> ppoptimizer \<Rightarrow> string \<Rightarrow> agent_batch \<Rightarrow> real \<Rightarrow> 's
    \<Rightarrow> (string \<rightharpoonup> real) \<Rightarrow> py_error option \<times> 's \<times> (string \<rightharpoonup> real)" where
  "update_agent ext self agent_id batch0 ec s0 metrics =
     (case getitem (config self) ''use_gpu'' of
        Inl e \<Rightarrow> (Some e, s0, metrics)
      | Inr use_gpu \<Rightarrow>
     (case getitem (config self) ''pad_sequences'' of
        Inl e \<Rightarrow> (Some e, s0, metrics)
      | Inr pad \<Rightarrow>
     (let (b, msk) = prepare_mask ext batch0 pad;
          (res, s1) = evaluate_actions ext s0 b pad
      in case unpack3 res of
           Inl e \<Rightarrow> (Some e, s1, metrics)
         | Inr (lp, vb, ent) \<Rightarrow>
     (let c = loop_context ext self b msk pad vb ec;
          v0 = initial_vars s1 msk lp vb ent
      in case getitem (config self) ''ppo_steps'' of
           Inl e \<Rightarrow> (Some e, s1, metrics)
         | Inr n \<Rightarrow>
     (case py_range n of
        Inl e \<Rightarrow> (Some e, s1, metrics)
      | Inr steps \<Rightarrow>
     (case ppo_loop ext c steps v0 of
        (Some e, v) \<Rightarrow> (Some e, agent_state v, metrics)
      | (None, v) \<Rightarrow> (None, agent_state v, training_metrics agent_id msk v metrics)))))))"

text \<open>
  The constructor followed by the call, for one agent and up to line 205: the optimizer
  is built from the caller's configuration, the entropy coefficient is computed for the
  step, and the agent is updated on its part of the transposed batch, starting from an
  empty metrics dictionary.
\<close>

definition train_on_data ::
  "'s collaborators \<Rightarrow> pydict \<Rightarrow> string \<Rightarrow> agent_batch \<Rightarrow> int \<Rightarrow> 's
    \<Rightarrow> py_error option \<times> 's \<times> (string \<rightharpoonup> real)" where
  "train_on_data ext conf agent_id batch0 step s0 =
     (case PPOptimizer_init conf of
        Inl e \<Rightarrow> (Some e, s0, map_of [])
      | Inr self \<Rightarrow>
          (case entropy_coeff_at (config self) step of
             Inl e \<Rightarrow> (Some e, s0, map_of [])
           | Inr ec \<Rightarrow> update_agent ext self agent_id batch0 ec s0 (map_of [])))"

subsection \<open>Validity masks and example collaborators\<close>

text \<open>A validity mask holds 0 (padding) or 1 (collected data) at each position.\<close>

fun is_mask :: "real list \<Rightarrow> bool" where
  "is_mask [] = True"
| "is_mask (x # xs) = ((x = 0 \<or> x = 1) \<and> is_mask xs)"

text \<open>
  Concrete collaborators on which the definitions above are evaluated. The agent object
  is a pair: the number of evaluations made so far and one model parameter \<open>w\<close>. Each
  evaluation returns \<open>w\<close> as the log-probability of every step, zero values and zero
  entropies; with \<open>skill_from = Some k\<close> it adds a skill prediction from its \<open>k\<close>-th call
  on, with \<open>None\<close> it never does. An optimizer step adds 1 to \<open>w\<close>. The return of a
  one-step episode is its reward, which is all the example batch contains.
\<close>

definition example_evaluate ::
  "nat option \<Rightarrow> nat \<times> real \<Rightarrow> agent_batch \<Rightarrow> cval \<Rightarrow> eval_result \<times> (nat \<times> real)" where
  "example_evaluate skill_from s b pad =
     (let lp = map (\<lambda>r. snd s) (rewards b);
          zeros = map (\<lambda>r. 0) (rewards b);
          s' = (Suc (fst s), snd s)
      in case skill_from of
           None \<Rightarrow> (Eval3 lp zeros zeros, s')
         | Some k \<Rightarrow>
             if k \<le> fst s then (Eval4 lp zeros zeros (map (\<lambda>r. [0]) (rewards b)), s')
             else (Eval3 lp zeros zeros, s'))"

definition example_collaborators :: "nat option \<Rightarrow> (nat \<times> real) collaborators" where
  "example_collaborators skill_from =
     \<lparr>evaluate_actions = example_evaluate skill_from,
      backward = (\<lambda>s l. s),
      clip_grad_norm = (\<lambda>s g. s),
      optimizer_step = (\<lambda>s. (fst s, snd s + 1)),
      simple_padder = (\<lambda>b. (b, map (\<lambda>r. 1) (rewards b))),
      discount_rewards_to_go = (\<lambda>r d g pad. r)\<rparr>"

definition example_batch :: agent_batch where
  "example_batch = \<lparr>rewards = [1], logprobs = [0], dones = [True], toms = [[0]]\<rparr>"

text \<open>
  The optimizer that the constructor returns for a configuration, written out (see
  \<open>PPOptimizer_init_total\<close> below), and the default one.
\<close>

definition optimizer_with :: "pydict \<Rightarrow> ppoptimizer" where
  "optimizer_with conf =
     \<lparr>config = with_default_config conf default_config,
      gamma = dict_get (with_default_config conf default_config) ''gamma'',
      eps = dict_get (with_default_config conf default_config) ''eps''\<rparr>"

text \<open>The loop variables after the assignments of lines 156 to 161 in iteration \<open>i\<close>.\<close>

definition vars_after_eval ::
  "'s loop_vars \<Rightarrow> nat \<Rightarrow> 's \<Rightarrow> real list \<Rightarrow> real list \<Rightarrow> real list \<Rightarrow> real list list
    \<Rightarrow> loop_ctx \<Rightarrow> 's loop_vars" where
  "vars_after_eval v i s' lp vb ent sm c =
     v\<lparr>ppo_step := int i, agent_state := s', logprob_batch := lp, value_batch := vb,
       entropy_batch := ent, sm_batch := sm,
       kl_divergence := masked_mean (map2 (-) (old_logprobs_batch c) lp) (the_mask c)\<rparr>"

text \<open>
  A loop context with two positions, written out: old log-probabilities 0, advantages 2
  and \<open>- 3\<close>, discounted returns 1 and 3, ground-truth skill vectors \<open>(1, 2)\<close> and \<open>(0, 1)\<close>,
  the mask all ones, clip parameter and entropy coefficient 0.1. Its configuration is
  the caller's, merged over the defaults: once with skill modelling on and \<^verbatim>\<open>sm_coeff\<close>
  0.5, once as the defaults alone.
\<close>

definition example_context :: "pydict \<Rightarrow> loop_ctx" where
  "example_context conf =
     \<lparr>cfg = with_default_config conf default_config, clip_eps = CFloat (1 / 10),
      padded = CBool False,
      the_batch = \<lparr>rewards = [1, 3], logprobs = [0, 0], dones = [True, True],
                   toms = [[1, 2], [0, 1]]\<rparr>,
      the_mask = [1, 1], old_logprobs_batch = [0, 0], advantages_batch = [2, - 3],
      discounted_batch = [1, 3], tom_batch = [[1, 2], [0, 1]], entropy_coeff = 1 / 10\<rparr>"

definition example_context_sm :: loop_ctx where
  "example_context_sm =
     example_context (map_of [(''use_sm'', CBool True), (''sm_coeff'', CFloat (1 / 2))])"

definition example_context_plain :: loop_ctx where
  "example_context_plain = example_context (map_of [])"

text \<open>
  An agent whose every evaluation returns four components: log-probabilities 0, values
  3 and 1, entropies 0.5 and the skill predictions \<open>(3, 2)\<close> and \<open>(0, 0)\<close>. The variables
  before the first iteration, and after lines 156 to 161 of that iteration.
\<close>

definition example_skill_collaborators :: "(nat \<times> real) collaborators" where
  "example_skill_collaborators =
     (example_collaborators (Some 0))
       \<lparr>evaluate_actions :=
          (\<lambda>s b pad. (Eval4 [0, 0] [3, 1] [1 / 2, 1 / 2] [[3, 2], [0, 0]], (Suc (fst s), snd s)))\<rparr>"

definition example_vars0 :: "(nat \<times> real) loop_vars" where
  "example_vars0 = initial_vars (0, 0) [1, 1] [0, 0] [0, 0] [0, 0]"

definition example_vars :: "(nat \<times> real) loop_vars" where
  "example_vars =
     vars_after_eval example_vars0 0 (1, 0) [0, 0] [3, 1] [1 / 2, 1 / 2] [[3, 2], [0, 0]]
       example_context_plain"

text \<open>
  A batch of three positions, two episodes, whose recorded log-probabilities differ from
  position to position.
\<close>

definition example_batch3 :: agent_batch where
  "example_batch3 =
     \<lparr>rewards = [1, 0, 2], logprobs = [1, 0, - 1], dones = [False, True, True],
      toms = [[0], [0], [0]]\<rparr>"

section \<open>Properties\<close>

subsection \<open>The clipped surrogate loss\<close>

lemma clip_elementwise:
  fixes e r a :: real
  assumes "0 < e" and "e < 1" and "0 < r"
  shows "min (r * a) (if a > 0 then (1 + e) * a else (1 - e) * a)
       = min (r * a) (clamp r (1 - e) (1 + e) * a)"
proof (cases "a > 0")
  case True
  then show ?thesis
    using assms
    by (auto simp: clamp_def min_def max_def mult_le_cancel_right mult_less_cancel_right)
next
  case False
  then show ?thesis
    using assms
    by (auto simp: clamp_def min_def max_def mult_le_cancel_right mult_less_cancel_right
        not_less)
qed

text \<open>
  Claim C4. For a clip parameter strictly between 0 and 1, the policy loss the code
  computes with the one-sided clip (\<open>(1 + e) * a\<close> for a positive advantage \<open>a\<close>,
  \<open>(1 - e) * a\<close> otherwise) is, entry by entry, the loss of the symmetric form that
  clamps the probability ratio \<open>exp (new_logprob - old_logprob)\<close> into \<open>[1 - e, 1 + e]\<close>
  before multiplying it by the advantage.
\<close>

theorem one_sided_clip_eq_clamped:
  assumes "0 < e" and "e < 1"
  shows "surrogate_loss e new_lp old_lp adv = surrogate_loss_clamped e new_lp old_lp adv"
proof (induction new_lp arbitrary: old_lp adv)
  case Nil
  then show ?case
    by (simp add: surrogate_loss_def surrogate_loss_clamped_def)
next
  case (Cons l ls)
  show ?case
  proof (cases old_lp)
    case Nil
    then show ?thesis
      by (simp add: surrogate_loss_def surrogate_loss_clamped_def)
  next
    case old: (Cons ol ols)
    show ?thesis
    proof (cases adv)
      case Nil
      then show ?thesis
        by (simp add: surrogate_loss_def surrogate_loss_clamped_def)
    next
      case adv: (Cons a as)
      have rest: "surrogate_loss e ls ols as = surrogate_loss_clamped e ls ols as"
        by (rule Cons.IH)
      have "0 < exp (l - ol)"
        by simp
      then have "min (exp (l - ol) * a) (if a > 0 then (1 + e) * a else (1 - e) * a)
          = min (exp (l - ol) * a) (clamp (exp (l - ol)) (1 - e) (1 + e) * a)"
        using assms by (intro clip_elementwise)
      with rest show ?thesis
        using old adv
        by (simp add: surrogate_loss_def surrogate_loss_clamped_def Let_def)
    qed
  qed
qed

theorem one_sided_clip_eq_clamped_witness:
  "0 < (1 / 10 :: real) \<and> (1 / 10 :: real) < 1
   \<and> surrogate_loss (1 / 10) [0, 0] [0, 0] [2, - 3]
       = surrogate_loss_clamped (1 / 10) [0, 0] [0, 0] [2, - 3]
   \<and> surrogate_loss (1 / 10) [0, 0] [0, 0] [2, - 3] = [- 2, 3]"
  using one_sided_clip_eq_clamped [of "1 / 10" "[0, 0]" "[0, 0]" "[2, - 3]"]
  by (simp add: surrogate_loss_def)

subsection \<open>The entropy coefficient\<close>

lemma entropy_coeff_at_value:
  assumes "num_of (dict_get c ''entropy_coeff'') = Inr b"
    and "num_of (dict_get c ''entropy_decay_time'') = Inr t"
    and "num_of (dict_get c ''min_entropy'') = Inr m"
    and "t \<noteq> 0"
  shows "entropy_coeff_at c step = Inr (max (b * (1 / 10) powr (real_of_int step / t)) m)"
  using assms by (simp add: entropy_coeff_at_def)

lemma decay_antimono:
  fixes b t m :: real
  assumes "0 \<le> b" and "0 < t" and "s1 \<le> s2"
  shows "max (b * (1 / 10) powr (real_of_int s2 / t)) m
       \<le> max (b * (1 / 10) powr (real_of_int s1 / t)) m"
proof -
  have "real_of_int s1 / t \<le> real_of_int s2 / t"
    using assms by (simp add: divide_right_mono)
  then have "(1 / 10 :: real) powr (real_of_int s2 / t) \<le> (1 / 10) powr (real_of_int s1 / t)"
    by (intro powr_mono') auto
  then have "b * (1 / 10) powr (real_of_int s2 / t) \<le> b * (1 / 10) powr (real_of_int s1 / t)"
    using assms(1) by (rule mult_left_mono)
  then show ?thesis
    by (rule max.mono) simp
qed

text \<open>
  Claim C6, as the code has it. With numeric settings \<open>b\<close> for \<^verbatim>\<open>entropy_coeff\<close>, \<open>t > 0\<close>
  for \<^verbatim>\<open>entropy_decay_time\<close> and \<open>m\<close> for \<^verbatim>\<open>min_entropy\<close>, the coefficient computed for a
  call is \<open>max (b * 0.1 ^ (step / t)) m\<close>. At step 0 it is \<open>max b m\<close>, which is the
  configured base exactly when the base is not below the floor. It never falls below
  \<open>m\<close>, and for a base \<open>b \<ge> 0\<close> it does not increase with the step.
\<close>

theorem entropy_coeff_schedule:
  assumes b: "num_of (dict_get c ''entropy_coeff'') = Inr b"
    and t: "num_of (dict_get c ''entropy_decay_time'') = Inr t"
    and m: "num_of (dict_get c ''min_entropy'') = Inr m"
    and tpos: "0 < t"
  shows "entropy_coeff_at c step = Inr (max (b * (1 / 10) powr (real_of_int step / t)) m)
     \<and> entropy_coeff_at c 0 = Inr (max b m)
     \<and> (m \<le> b \<longrightarrow> entropy_coeff_at c 0 = Inr b)
     \<and> (case entropy_coeff_at c step of Inl e \<Rightarrow> False | Inr x \<Rightarrow> m \<le> x)
     \<and> (0 \<le> b \<and> s1 \<le> s2 \<longrightarrow>
          (case (entropy_coeff_at c s1, entropy_coeff_at c s2) of
             (Inr x1, Inr x2) \<Rightarrow> x2 \<le> x1
           | _ \<Rightarrow> False))"
proof -
  have v: "entropy_coeff_at c s = Inr (max (b * (1 / 10) powr (real_of_int s / t)) m)" for s
    using b t m tpos by (intro entropy_coeff_at_value) auto
  have z: "entropy_coeff_at c 0 = Inr (max b m)"
    by (simp add: v)
  have mono: "0 \<le> b \<and> s1 \<le> s2 \<longrightarrow>
          (case (entropy_coeff_at c s1, entropy_coeff_at c s2) of
             (Inr x1, Inr x2) \<Rightarrow> x2 \<le> x1
           | _ \<Rightarrow> False)"
    using decay_antimono [of b t s1 s2 m] tpos by (simp add: v)
  show ?thesis
    using z mono by (simp add: v)
qed

theorem entropy_coeff_schedule_witness:
  "num_of (dict_get (with_default_config (map_of []) default_config) ''entropy_coeff'')
     = Inr (1 / 10)
   \<and> num_of (dict_get (with_default_config (map_of []) default_config) ''entropy_decay_time'')
     = Inr 100
   \<and> num_of (dict_get (with_default_config (map_of []) default_config) ''min_entropy'')
     = Inr (1 / 10 ^ 4)
   \<and> (0 :: real) < 100
   \<and> entropy_coeff_at (with_default_config (map_of []) default_config) 0 = Inr (1 / 10)
   \<and> entropy_coeff_at (with_default_config (map_of []) default_config) 100 = Inr (1 / 100)"
proof -
  let ?c = "with_default_config (map_of []) default_config"
  have b: "num_of (dict_get ?c ''entropy_coeff'') = Inr (1 / 10)"
    and t: "num_of (dict_get ?c ''entropy_decay_time'') = Inr 100"
    and m: "num_of (dict_get ?c ''min_entropy'') = Inr (1 / 10 ^ 4)"
    by (simp_all add: dict_get_def with_default_config_def default_config_def)
  have p: "(0 :: real) < 100"
    by simp
  show ?thesis
    using b t m entropy_coeff_schedule [OF b t m p, of 100 0 100]
    by simp
qed

text \<open>
  The claim as the specification words it fails. A caller who sets \<^verbatim>\<open>entropy_coeff\<close> to 0
  and keeps the default floor gets the floor, not the configured base, at step 0. With a
  negative base above which the floor does not reach, the coefficient grows with the
  step, and so it does with a negative decay time. A decay time of 0 raises.
\<close>

theorem entropy_coeff_base_counterexample:
  "dict_get (with_default_config (map_of [(''entropy_coeff'', CFloat 0)]) default_config)
      ''entropy_coeff'' = CFloat 0
   \<and> entropy_coeff_at
        (with_default_config (map_of [(''entropy_coeff'', CFloat 0)]) default_config) 0
      = Inr (1 / 10 ^ 4)
   \<and> entropy_coeff_at
        (with_default_config
           (map_of [(''entropy_coeff'', CFloat (- 1)), (''min_entropy'', CFloat (- 1 / 2))])
           default_config) 0
      = Inr (- 1 / 2)
   \<and> entropy_coeff_at
        (with_default_config
           (map_of [(''entropy_coeff'', CFloat (- 1)), (''min_entropy'', CFloat (- 1 / 2))])
           default_config) 100
      = Inr (- 1 / 10)
   \<and> entropy_coeff_at
        (with_default_config (map_of [(''entropy_decay_time'', CInt (- 100))]) default_config)
        0
      = Inr (1 / 10)
   \<and> entropy_coeff_at
        (with_default_config (map_of [(''entropy_decay_time'', CInt (- 100))]) default_config)
        100
      = Inr 1
   \<and> entropy_coeff_at
        (with_default_config (map_of [(''entropy_decay_time'', CInt 0)]) default_config) 0
      = Inl ZeroDivisionError"
  by (simp add: entropy_coeff_at_def dict_get_def with_default_config_def default_config_def
      powr_minus)

subsection \<open>Advantage normalisation\<close>

lemma is_mask_sum_nonneg: "is_mask m \<Longrightarrow> 0 \<le> sum_list m"
  by (induction m) auto

lemma is_mask_sum_pos: "is_mask m \<Longrightarrow> 1 \<in> set m \<Longrightarrow> 0 < sum_list m"
proof (induction m)
  case Nil
  then show ?case by simp
next
  case (Cons x xs)
  then show ?case
    using is_mask_sum_nonneg [of xs] by auto
qed

lemma weighted_sum_shift:
  "length xs = length m \<Longrightarrow>
   sum_list (map2 (*) (map (\<lambda>x. x - k) xs) m)
     = sum_list (map2 (*) xs m) - k * sum_list (m :: real list)"
  by (induction xs m rule: list_induct2) (simp_all add: algebra_simps)

lemma weighted_sum_scale:
  "sum_list (map2 (*) (map (\<lambda>x. x / c) xs) m) = sum_list (map2 (*) xs m) / (c :: real)"
proof (induction xs arbitrary: m)
  case Nil
  then show ?case by simp
next
  case (Cons x xs)
  then show ?case
    by (cases m) (simp_all add: add_divide_distrib)
qed

lemma weighted_sum_sq_scale:
  "sum_list (map2 (*) (map (\<lambda>y. y\<^sup>2) (map (\<lambda>x. x / c) xs)) m)
     = sum_list (map2 (*) (map (\<lambda>y. y\<^sup>2) xs) m) / (c :: real)\<^sup>2"
proof (induction xs arbitrary: m)
  case Nil
  then show ?case by simp
next
  case (Cons x xs)
  then show ?case
    by (cases m) (simp_all add: add_divide_distrib power_divide)
qed

lemma masked_mean_centred:
  assumes "length xs = length m" and "sum_list m \<noteq> 0"
  shows "masked_mean (map (\<lambda>x. x - masked_mean xs m) xs) m = 0"
  using assms by (simp add: masked_mean_def weighted_sum_shift)

lemma masked_mean_scale: "masked_mean (map (\<lambda>x. x / c) xs) m = masked_mean xs m / c"
  by (simp add: masked_mean_def weighted_sum_scale)

lemma masked_mean_sq_scale:
  "masked_mean (map (\<lambda>y. y\<^sup>2) (map (\<lambda>x. x / c) xs)) m
     = masked_mean (map (\<lambda>y. y\<^sup>2) xs) m / c\<^sup>2"
  by (simp add: masked_mean_def weighted_sum_sq_scale del: map_map)

lemma stabilizer_bound:
  fixes s d :: real
  assumes "0 < s" and "0 < d"
  shows "\<bar>s\<^sup>2 / (s + d)\<^sup>2 - 1\<bar> \<le> 2 * d / s" and "s\<^sup>2 / (s + d)\<^sup>2 < 1"
proof -
  have pos: "0 < (s + d)\<^sup>2"
    using assms by simp
  have "s\<^sup>2 < (s + d)\<^sup>2"
    using assms by (intro power_strict_mono) auto
  then show below: "s\<^sup>2 / (s + d)\<^sup>2 < 1"
    using pos by simp
  have "1 - s\<^sup>2 / (s + d)\<^sup>2 = (2 * s * d + d\<^sup>2) / (s + d)\<^sup>2"
    using pos by (simp add: field_simps power2_eq_square)
  also have "\<dots> \<le> (2 * d * (s + d)) / (s + d)\<^sup>2"
    using pos assms by (intro divide_right_mono) (auto simp: algebra_simps power2_eq_square)
  also have "\<dots> = 2 * d / (s + d)"
    using assms by (simp add: power2_eq_square)
  also have "\<dots> \<le> 2 * d / s"
    using assms by (intro divide_left_mono) auto
  finally have "1 - s\<^sup>2 / (s + d)\<^sup>2 \<le> 2 * d / s" .
  with below show "\<bar>s\<^sup>2 / (s + d)\<^sup>2 - 1\<bar> \<le> 2 * d / s"
    by simp
qed

text \<open>
  Claim C5. Take a batch whose return, value and mask tensors have the same shape, a
  0/1 mask with at least one valid position, and a centred advantage whose masked mean
  square \<open>q\<close> is positive (the variance is not degenerate). Then, over the reals, the
  normalised advantage has masked mean exactly 0, and its masked mean square lies below
  1 by at most \<open>2 * 1e-8 / sqrt q\<close>, the tolerance that the stabilizer induces.
\<close>

theorem normalized_advantages_moments:
  assumes len: "length discounted = length vals" "length msk = length discounted"
    and msk: "is_mask msk"
    and valid: "1 \<in> set msk"
    and nondeg:
      "0 < masked_mean (map (\<lambda>y. y\<^sup>2) (centred_advantages discounted vals msk)) msk"
  shows "masked_mean (normalized_advantages discounted vals msk) msk = 0
    \<and> \<bar>masked_mean (map (\<lambda>y. y\<^sup>2) (normalized_advantages discounted vals msk)) msk - 1\<bar>
        \<le> 2 * (1 / 10 ^ 8)
           / sqrt (masked_mean (map (\<lambda>y. y\<^sup>2) (centred_advantages discounted vals msk)) msk)
    \<and> masked_mean (map (\<lambda>y. y\<^sup>2) (normalized_advantages discounted vals msk)) msk < 1"
proof -
  define a where "a = centred_advantages discounted vals msk"
  define q where "q = masked_mean (map (\<lambda>y. y\<^sup>2) a) msk"
  define s where "s = sqrt q"
  define d :: real where "d = 1 / 10 ^ 8"
  have total: "0 < sum_list msk"
    using msk valid by (rule is_mask_sum_pos)
  have la: "length (map2 (-) discounted vals) = length msk"
    using len by simp
  have mean0: "masked_mean a msk = 0"
    unfolding a_def centred_advantages_def Let_def
    using la total by (intro masked_mean_centred) auto
  have n: "normalized_advantages discounted vals msk = map (\<lambda>x. x / (s + d)) a"
    by (simp add: normalized_advantages_def a_def q_def s_def d_def Let_def)
  have qpos: "0 < q"
    using nondeg by (simp add: q_def a_def)
  then have spos: "0 < s"
    by (simp add: s_def)
  have sq: "s\<^sup>2 = q"
    using qpos by (simp add: s_def)
  have dpos: "0 < d"
    by (simp add: d_def)
  have m1: "masked_mean (normalized_advantages discounted vals msk) msk = 0"
    by (simp add: n masked_mean_scale mean0)
  have m2: "masked_mean (map (\<lambda>y. y\<^sup>2) (normalized_advantages discounted vals msk)) msk
      = s\<^sup>2 / (s + d)\<^sup>2"
    by (simp add: n masked_mean_sq_scale sq q_def del: map_map)
  show ?thesis
    using m1 stabilizer_bound [OF spos dpos]
    unfolding m2 by (simp add: s_def q_def a_def d_def)
qed

theorem normalized_advantages_moments_witness:
  "length [1, 3 :: real] = length [0, 0 :: real]
   \<and> length [1, 1 :: real] = length [1, 3 :: real]
   \<and> is_mask [1, 1] \<and> 1 \<in> set [1, 1 :: real]
   \<and> masked_mean (map (\<lambda>y. y\<^sup>2) (centred_advantages [1, 3] [0, 0] [1, 1])) [1, 1] = 1
   \<and> masked_mean (normalized_advantages [1, 3] [0, 0] [1, 1]) [1, 1] = 0
   \<and> \<bar>masked_mean (map (\<lambda>y. y\<^sup>2) (normalized_advantages [1, 3] [0, 0] [1, 1])) [1, 1] - 1\<bar>
       \<le> 2 / 10 ^ 8"
proof -
  have c: "masked_mean (map (\<lambda>y. y\<^sup>2) (centred_advantages [1, 3] [0, 0] [1, 1])) [1, 1] = 1"
    by (simp add: centred_advantages_def masked_mean_def)
  have h: "0 < masked_mean (map (\<lambda>y. y\<^sup>2) (centred_advantages [1, 3] [0, 0] [1, 1])) [1, 1]"
    by (simp add: c)
  have "masked_mean (normalized_advantages [1, 3] [0, 0] [1, 1]) [1, 1] = 0
    \<and> \<bar>masked_mean (map (\<lambda>y. y\<^sup>2) (normalized_advantages [1, 3] [0, 0] [1, 1])) [1, 1] - 1\<bar>
        \<le> 2 * (1 / 10 ^ 8)
           / sqrt (masked_mean (map (\<lambda>y. y\<^sup>2) (centred_advantages [1, 3] [0, 0] [1, 1])) [1, 1])
    \<and> masked_mean (map (\<lambda>y. y\<^sup>2) (normalized_advantages [1, 3] [0, 0] [1, 1])) [1, 1] < 1"
    by (rule normalized_advantages_moments [OF _ _ _ _ h]) simp_all
  then show ?thesis
    unfolding c by (simp add: abs_if split: if_splits)
qed

subsection \<open>Construction and the configuration keys\<close>

lemma default_key_getitem:
  "default_config k = Some d \<Longrightarrow>
   \<exists>v. getitem (with_default_config conf default_config) k = Inr v"
  by (cases "conf k") (simp_all add: getitem_def with_default_config_def map_add_def)

lemma default_key_dict_get:
  "default_config k = Some d \<Longrightarrow>
   getitem (with_default_config conf default_config) k
     = Inr (dict_get (with_default_config conf default_config) k)"
  by (cases "conf k") (simp_all add: getitem_def dict_get_def with_default_config_def map_add_def)

lemma default_keys:
  "default_config ''use_gpu'' = Some (CBool False)"
  "default_config ''pad_sequences'' = Some (CBool False)"
  "default_config ''gamma'' = Some (CFloat (95 / 100))"
  "default_config ''eps'' = Some (CFloat (1 / 10))"
  by (simp_all add: default_config_def)

text \<open>The constructor never fails: the two keys it reads have defaults.\<close>

lemma PPOptimizer_init_total: "PPOptimizer_init conf = Inr (optimizer_with conf)"
  by (simp add: PPOptimizer_init_def optimizer_with_def Let_def
      default_key_dict_get [OF default_keys(3)] default_key_dict_get [OF default_keys(4)])

lemma train_on_data_update_agent:
  assumes "entropy_coeff_at (with_default_config conf default_config) step = Inr ec"
  shows "train_on_data ext conf agent_id batch0 step s0
       = update_agent ext (optimizer_with conf) agent_id batch0 ec s0 (map_of [])"
  using assms by (simp add: train_on_data_def PPOptimizer_init_total optimizer_with_def)

text \<open>The definitions that evaluate a call on concrete data.\<close>

lemmas evaluation_rules =
  train_on_data_def PPOptimizer_init_def optimizer_with_def with_default_config_def
  default_config_def getitem_def dict_get_def entropy_coeff_at_def update_agent_def
  prepare_mask_def example_collaborators_def example_evaluate_def example_batch_def
  loop_context_def initial_vars_def normalized_advantages_def centred_advantages_def
  masked_mean_def ppo_iteration_def kl_check_def compute_loss_def update_step_def
  training_metrics_def surrogate_loss_def squared_error_def skill_loss_def
  vars_after_eval_def Let_def upt_conv_Cons

text \<open>
  Claim C3 fails on the code. The defaults of the constructor have no entry for
  \<^verbatim>\<open>use_sm\<close> nor for \<^verbatim>\<open>sm_coeff\<close>, so a caller who leaves them out gets no value for them.
  Line 182 reads \<^verbatim>\<open>self.config["use_sm"]\<close>: with the default configuration, an agent that
  passes the two tuple assignments and a first iteration whose KL estimate (0) is within
  the target, the call raises \<^verbatim>\<open>KeyError\<close> for \<^verbatim>\<open>use_sm\<close>; with \<^verbatim>\<open>use_sm\<close> switched on
  and nothing else, it raises \<^verbatim>\<open>KeyError\<close> for \<^verbatim>\<open>sm_coeff\<close> at line 184.
\<close>

theorem skill_keys_have_no_default:
  "config (optimizer_with (map_of [])) ''use_sm'' = None
   \<and> config (optimizer_with (map_of [])) ''sm_coeff'' = None
   \<and> fst (train_on_data (example_collaborators (Some 1)) (map_of []) ''agent''
             example_batch 0 (0, 0))
       = Some (KeyError ''use_sm'')
   \<and> fst (train_on_data (example_collaborators (Some 1)) (map_of [(''use_sm'', CBool True)])
             ''agent'' example_batch 0 (0, 0))
       = Some (KeyError ''sm_coeff'')"
  by (simp add: evaluation_rules)

subsection \<open>The stages of one iteration\<close>

lemma kl_check_eval3:
  assumes "evaluate_actions ext (agent_state v) (the_batch c) (padded c) = (Eval3 lp vb ent, s')"
  shows "kl_check ext c i v =
     Raised (ValueError ''not enough values to unpack (expected 4, got 3)'')
       (v\<lparr>ppo_step := int i, agent_state := s'\<rparr>)"
  using assms by (simp add: kl_check_def Let_def)

lemma kl_check_break:
  assumes "evaluate_actions ext (agent_state v) (the_batch c) (padded c)
        = (Eval4 lp vb ent sm, s')"
    and "getitem (cfg c) ''target_kl'' = Inr t" and "num_of t = Inr tk"
    and "tk < masked_mean (map2 (-) (old_logprobs_batch c) lp) (the_mask c)"
  shows "kl_check ext c i v = Broke (vars_after_eval v i s' lp vb ent sm c)"
  using assms by (simp add: kl_check_def Let_def vars_after_eval_def)

lemma kl_check_pass:
  assumes "evaluate_actions ext (agent_state v) (the_batch c) (padded c)
        = (Eval4 lp vb ent sm, s')"
    and "getitem (cfg c) ''target_kl'' = Inr t" and "num_of t = Inr tk"
    and "\<not> tk < masked_mean (map2 (-) (old_logprobs_batch c) lp) (the_mask c)"
  shows "kl_check ext c i v = Continued (vars_after_eval v i s' lp vb ent sm c)"
  using assms by (simp add: kl_check_def Let_def vars_after_eval_def)

lemma ppo_loop_break:
  assumes "kl_check ext c i v = Broke v'"
  shows "ppo_loop ext c (i # rest) v = (None, v')"
  using assms by (simp add: ppo_iteration_def)

lemma ppo_loop_raise:
  assumes "kl_check ext c i v = Raised e v'"
  shows "ppo_loop ext c (i # rest) v = (Some e, v')"
  using assms by (simp add: ppo_iteration_def)

lemma compute_loss_value:
  assumes "num_of (clip_eps c) = Inr e"
    and "getitem (cfg c) ''value_loss_coeff'' = Inr vc" and "num_of vc = Inr k"
    and "getitem (cfg c) ''use_sm'' = Inr u"
    and "truthy u \<longrightarrow> getitem (cfg c) ''sm_coeff'' = Inr sc \<and> num_of sc = Inr ks"
  shows "compute_loss c v =
     Continued (v
       \<lparr>policy_loss :=
          surrogate_loss e (logprob_batch v) (old_logprobs_batch c) (advantages_batch c),
        value_loss := squared_error (value_batch v) (discounted_batch c),
        sm_loss := (if truthy u then skill_loss (sm_batch v) (tom_batch c) else sm_loss v),
        loss :=
          masked_mean
            (surrogate_loss e (logprob_batch v) (old_logprobs_batch c) (advantages_batch c))
            (the_mask c)
          + k * masked_mean (squared_error (value_batch v) (discounted_batch c)) (the_mask c)
          - entropy_coeff c * masked_mean (entropy_batch v) (the_mask c)
          + (if truthy u
             then ks * masked_mean (skill_loss (sm_batch v) (tom_batch c)) (the_mask c)
             else 0)\<rparr>)"
  using assms by (simp add: compute_loss_def Let_def)

lemma update_step_continues:
  assumes "getitem (cfg c) ''max_grad_norm'' = Inr g"
    and "g = CNone \<or> num_of g = Inr x"
  shows "\<exists>v'. update_step ext c v = Continued v'
      \<and> optimizer_steps v' = Suc (optimizer_steps v)
      \<and> backward_calls v' = Suc (backward_calls v)
      \<and> ppo_step v' = ppo_step v"
  using assms by (cases g) (auto simp: update_step_def Let_def)

text \<open>
  The update step leaves the loss alone, the loss stage written out for a configuration
  with or without the key \<^verbatim>\<open>use_sm\<close>, and the KL estimate of line 161.
\<close>

lemma update_step_keeps_losses:
  "loss (outcome_vars (update_step ext c v)) = loss v"
  by (cases "getitem (cfg c) ''max_grad_norm''";
      cases "projr (getitem (cfg c) ''max_grad_norm'')")
     (auto simp: update_step_def Let_def split: sum.splits cval.splits)

lemma compute_loss_outcome:
  assumes e: "num_of (clip_eps c) = Inr e"
    and vc: "getitem (cfg c) ''value_loss_coeff'' = Inr vc" and k: "num_of vc = Inr k"
    and sc: "truthy (dict_get (cfg c) ''use_sm'') \<longrightarrow>
               getitem (cfg c) ''sm_coeff'' = Inr sc \<and> num_of sc = Inr ks"
  shows "compute_loss c v =
     (if cfg c ''use_sm'' = None then Raised (KeyError ''use_sm'') else Continued)
       (v\<lparr>policy_loss :=
            surrogate_loss e (logprob_batch v) (old_logprobs_batch c) (advantages_batch c),
          value_loss := squared_error (value_batch v) (discounted_batch c),
          sm_loss := (if truthy (dict_get (cfg c) ''use_sm'')
                      then skill_loss (sm_batch v) (tom_batch c) else sm_loss v),
          loss :=
            masked_mean
              (surrogate_loss e (logprob_batch v) (old_logprobs_batch c) (advantages_batch c))
              (the_mask c)
            + k * masked_mean (squared_error (value_batch v) (discounted_batch c)) (the_mask c)
            - entropy_coeff c * masked_mean (entropy_batch v) (the_mask c)
            + (if truthy (dict_get (cfg c) ''use_sm'')
               then ks * masked_mean (skill_loss (sm_batch v) (tom_batch c)) (the_mask c)
               else 0)\<rparr>)"
proof (cases "cfg c ''use_sm''")
  case None
  then show ?thesis
    using e vc k by (simp add: compute_loss_def Let_def getitem_def dict_get_def)
next
  case (Some u)
  then have u: "getitem (cfg c) ''use_sm'' = Inr u" "dict_get (cfg c) ''use_sm'' = u"
    by (simp_all add: getitem_def dict_get_def)
  show ?thesis
    using e vc k sc u Some by (simp add: compute_loss_def Let_def)
qed

lemma kl_check_estimate:
  assumes "evaluate_actions ext (agent_state w) (the_batch c) (padded c)
             = (Eval4 lp vb ent sm, s')"
  shows "kl_divergence (outcome_vars (kl_check ext c i w))
           = masked_mean (map2 (-) (old_logprobs_batch c) lp) (the_mask c)"
  using assms
  by (cases "getitem (cfg c) ''target_kl''";
      cases "num_of (projr (getitem (cfg c) ''target_kl''))")
     (simp_all add: kl_check_def Let_def)

subsection \<open>The update of one agent, unfolded\<close>

lemma update_agent_loop:
  assumes "getitem (config self) ''use_gpu'' = Inr gpu"
    and "getitem (config self) ''pad_sequences'' = Inr pad"
    and "prepare_mask ext batch0 pad = (b, msk)"
    and "evaluate_actions ext s0 b pad = (Eval3 lp vb ent, s1)"
    and "getitem (config self) ''ppo_steps'' = Inr n"
    and "py_range n = Inr steps"
    and "ppo_loop ext (loop_context ext self b msk pad vb ec) steps
           (initial_vars s1 msk lp vb ent) = (r, v)"
  shows "update_agent ext self agent_id batch0 ec s0 metrics =
     (case r of
        Some e \<Rightarrow> (Some e, agent_state v, metrics)
      | None \<Rightarrow> (None, agent_state v, training_metrics agent_id msk v metrics))"
  using assms by (cases r) (simp_all add: update_agent_def Let_def del: ppo_loop.simps)

lemma update_agent_unpack3_fails:
  assumes "getitem (config self) ''use_gpu'' = Inr gpu"
    and "getitem (config self) ''pad_sequences'' = Inr pad"
    and "prepare_mask ext batch0 pad = (b, msk)"
    and "evaluate_actions ext s0 b pad = (Eval4 lp vb ent sm, s1)"
  shows "update_agent ext self agent_id batch0 ec s0 metrics =
     (Some (ValueError ''too many values to unpack (expected 3)''), s1, metrics)"
  using assms by (simp add: update_agent_def Let_def)

lemma update_agent_fixed_arity:
  assumes fixed: "\<forall>s b p. arity (fst (evaluate_actions ext s b p)) = k"
    and steps: "getitem (with_default_config conf default_config) ''ppo_steps'' = Inr (CInt n)"
    and n: "1 \<le> n"
  shows "fst (update_agent ext (optimizer_with conf) agent_id batch0 ec s0 metrics)
       = Some (ValueError (if k = 3 then ''not enough values to unpack (expected 4, got 3)''
                           else ''too many values to unpack (expected 3)''))
     \<and> snd (snd (update_agent ext (optimizer_with conf) agent_id batch0 ec s0 metrics))
       = metrics"
proof -
  define self where "self = optimizer_with conf"
  have cf: "config self = with_default_config conf default_config"
    by (simp add: self_def optimizer_with_def)
  obtain gpu where gpu: "getitem (config self) ''use_gpu'' = Inr gpu"
    unfolding cf using default_key_getitem [OF default_keys(1)] by blast
  obtain pad where pad: "getitem (config self) ''pad_sequences'' = Inr pad"
    unfolding cf using default_key_getitem [OF default_keys(2)] by blast
  obtain b msk where pm: "prepare_mask ext batch0 pad = (b, msk)"
    by (cases "prepare_mask ext batch0 pad")
  obtain res s1 where ev: "evaluate_actions ext s0 b pad = (res, s1)"
    by (cases "evaluate_actions ext s0 b pad")
  have ar: "arity res = k"
    using fixed [rule_format, of s0 b pad] ev by simp
  have "fst (update_agent ext self agent_id batch0 ec s0 metrics)
       = Some (ValueError (if k = 3 then ''not enough values to unpack (expected 4, got 3)''
                           else ''too many values to unpack (expected 3)''))
     \<and> snd (snd (update_agent ext self agent_id batch0 ec s0 metrics)) = metrics"
  proof (cases res)
    case (Eval4 lp vb ent sm)
    then have "k = 4"
      using ar by simp
    then show ?thesis
      using update_agent_unpack3_fails [OF gpu pad pm ev [unfolded Eval4]] by simp
  next
    case (Eval3 lp vb ent)
    then have k3: "k = 3"
      using ar by simp
    define c where "c = loop_context ext self b msk pad vb ec"
    define v0 where "v0 = initial_vars s1 msk lp vb ent"
    obtain res2 s2 where
      ev2: "evaluate_actions ext (agent_state v0) (the_batch c) (padded c) = (res2, s2)"
      by (cases "evaluate_actions ext (agent_state v0) (the_batch c) (padded c)")
    have "arity res2 = 3"
      using fixed [rule_format, of "agent_state v0" "the_batch c" "padded c"] ev2 k3 by simp
    then obtain lp2 vb2 ent2 where r2: "res2 = Eval3 lp2 vb2 ent2"
      by (cases res2) simp_all
    have rng: "py_range (CInt n) = Inr (0 # [1 ..< nat n])"
      using n by (simp add: upt_conv_Cons)
    have raised: "ppo_loop ext c (0 # [1 ..< nat n]) v0 =
       (Some (ValueError ''not enough values to unpack (expected 4, got 3)''),
        v0\<lparr>ppo_step := int 0, agent_state := s2\<rparr>)"
      using ev2 r2 by (intro ppo_loop_raise kl_check_eval3) simp
    show ?thesis
      using update_agent_loop [OF gpu pad pm ev [unfolded Eval3] steps [folded cf] rng
          raised [unfolded c_def v0_def]] k3
      by simp
  qed
  then show ?thesis
    by (simp add: self_def)
qed

text \<open>
  Claim C10. The call before the loop assigns the result of \<^verbatim>\<open>evaluate_actions\<close> to three
  names, the call in the loop to four. For an agent whose \<^verbatim>\<open>evaluate_actions\<close> returns
  tuples of one length \<open>k\<close> whatever its state and arguments, a call that gets as far as
  the agent (the entropy coefficient is computed) with an integer \<^verbatim>\<open>ppo_steps\<close> of at
  least 1 raises \<^verbatim>\<open>ValueError\<close> from one of the two tuple assignments: in the first
  iteration of the loop when \<open>k = 3\<close>, before the loop otherwise. No metric is written.
\<close>

theorem fixed_arity_unpacking_fails:
  assumes fixed: "\<forall>s b p. arity (fst (evaluate_actions ext s b p)) = k"
    and steps: "getitem (with_default_config conf default_config) ''ppo_steps'' = Inr (CInt n)"
    and n: "1 \<le> n"
    and ec: "entropy_coeff_at (with_default_config conf default_config) step = Inr ec"
  shows "fst (train_on_data ext conf agent_id batch0 step s0)
       = Some (ValueError (if k = 3 then ''not enough values to unpack (expected 4, got 3)''
                           else ''too many values to unpack (expected 3)''))
     \<and> snd (snd (train_on_data ext conf agent_id batch0 step s0)) = map_of []"
  unfolding train_on_data_update_agent [OF ec]
  using fixed steps n by (rule update_agent_fixed_arity)

theorem fixed_arity_unpacking_fails_witness:
  "getitem (with_default_config (map_of []) default_config) ''ppo_steps'' = Inr (CInt 25)
   \<and> (1 :: int) \<le> 25
   \<and> entropy_coeff_at (with_default_config (map_of []) default_config) 0 = Inr (1 / 10)
   \<and> fst (train_on_data (example_collaborators None) (map_of []) ''agent'' example_batch 0
            (0, 0))
       = Some (ValueError ''not enough values to unpack (expected 4, got 3)'')
   \<and> fst (train_on_data (example_collaborators (Some 0)) (map_of []) ''agent'' example_batch 0
            (0, 0))
       = Some (ValueError ''too many values to unpack (expected 3)'')"
proof -
  let ?c = "with_default_config (map_of []) default_config"
  have f3: "\<forall>s b p. arity (fst (evaluate_actions (example_collaborators None) s b p)) = 3"
    by (simp add: example_collaborators_def example_evaluate_def Let_def)
  have f4: "\<forall>s b p. arity (fst (evaluate_actions (example_collaborators (Some 0)) s b p)) = 4"
    by (simp add: example_collaborators_def example_evaluate_def Let_def)
  have steps: "getitem ?c ''ppo_steps'' = Inr (CInt 25)"
    by (simp add: getitem_def with_default_config_def default_config_def)
  have n: "(1 :: int) \<le> 25"
    by simp
  have ec: "entropy_coeff_at ?c 0 = Inr (1 / 10)"
    by (simp add: entropy_coeff_at_def dict_get_def with_default_config_def default_config_def)
  show ?thesis
    using steps ec
      fixed_arity_unpacking_fails [OF f3 steps n ec, of "''agent''" example_batch "(0, 0)"]
      fixed_arity_unpacking_fails [OF f4 steps n ec, of "''agent''" example_batch "(0, 0)"]
    by simp
qed

subsection \<open>Early stopping\<close>

text \<open>
  Claim C2. Let the forward pass leave the model parameters of the agent as they are
  (\<open>parameters\<close> reads them off the agent object). In an iteration whose evaluation
  succeeds and whose KL estimate exceeds \<^verbatim>\<open>target_kl\<close>, the loop ends at once: the agent
  object is the one the evaluation returned, neither \<^verbatim>\<open>loss.backward()\<close> nor
  \<^verbatim>\<open>optimizer.step()\<close> has run once more, and the loss variable still holds the value
  of the iteration before. In particular, when this happens in iteration 0 of a call, the
  parameters after the call are the parameters before it.
\<close>

theorem kl_early_stop_skips_update:
  assumes fwd: "\<forall>s b p. parameters (snd (evaluate_actions ext s b p)) = parameters s"
  shows
   "(evaluate_actions ext (agent_state v) (the_batch c) (padded c) = (Eval4 lp vb ent sm, s')
      \<and> getitem (cfg c) ''target_kl'' = Inr t \<and> num_of t = Inr tk
      \<and> tk < masked_mean (map2 (-) (old_logprobs_batch c) lp) (the_mask c)
     \<longrightarrow> fst (ppo_loop ext c (i # rest) v) = None
        \<and> agent_state (snd (ppo_loop ext c (i # rest) v)) = s'
        \<and> parameters (agent_state (snd (ppo_loop ext c (i # rest) v)))
            = parameters (agent_state v)
        \<and> backward_calls (snd (ppo_loop ext c (i # rest) v)) = backward_calls v
        \<and> optimizer_steps (snd (ppo_loop ext c (i # rest) v)) = optimizer_steps v
        \<and> loss (snd (ppo_loop ext c (i # rest) v)) = loss v)
    \<and> (entropy_coeff_at (with_default_config conf default_config) step = Inr ec
      \<and> getitem (with_default_config conf default_config) ''pad_sequences'' = Inr pad
      \<and> prepare_mask ext batch0 pad = (b, msk)
      \<and> evaluate_actions ext s0 b pad = (Eval3 lp0 vb0 ent0, s1)
      \<and> getitem (with_default_config conf default_config) ''ppo_steps'' = Inr (CInt n)
      \<and> 1 \<le> n
      \<and> evaluate_actions ext s1 b pad = (Eval4 lp1 vb1 ent1 sm1, s2)
      \<and> getitem (with_default_config conf default_config) ''target_kl'' = Inr t0
      \<and> num_of t0 = Inr tk0
      \<and> tk0 < masked_mean (map2 (-) (logprobs b) lp1) msk
     \<longrightarrow> fst (train_on_data ext conf agent_id batch0 step s0) = None
        \<and> fst (snd (train_on_data ext conf agent_id batch0 step s0)) = s2
        \<and> parameters (fst (snd (train_on_data ext conf agent_id batch0 step s0)))
            = parameters s0)"
proof (intro conjI impI)
  assume h: "evaluate_actions ext (agent_state v) (the_batch c) (padded c)
        = (Eval4 lp vb ent sm, s')
      \<and> getitem (cfg c) ''target_kl'' = Inr t \<and> num_of t = Inr tk
      \<and> tk < masked_mean (map2 (-) (old_logprobs_batch c) lp) (the_mask c)"
  then have l: "ppo_loop ext c (i # rest) v = (None, vars_after_eval v i s' lp vb ent sm c)"
    by (intro ppo_loop_break kl_check_break) auto
  have p: "parameters s' = parameters (agent_state v)"
    using fwd [rule_format, of "agent_state v" "the_batch c" "padded c"] h by simp
  show "fst (ppo_loop ext c (i # rest) v) = None"
    and "agent_state (snd (ppo_loop ext c (i # rest) v)) = s'"
    and "parameters (agent_state (snd (ppo_loop ext c (i # rest) v)))
          = parameters (agent_state v)"
    and "backward_calls (snd (ppo_loop ext c (i # rest) v)) = backward_calls v"
    and "optimizer_steps (snd (ppo_loop ext c (i # rest) v)) = optimizer_steps v"
    and "loss (snd (ppo_loop ext c (i # rest) v)) = loss v"
    unfolding l using p by (simp_all add: vars_after_eval_def)
next
  assume h: "entropy_coeff_at (with_default_config conf default_config) step = Inr ec
      \<and> getitem (with_default_config conf default_config) ''pad_sequences'' = Inr pad
      \<and> prepare_mask ext batch0 pad = (b, msk)
      \<and> evaluate_actions ext s0 b pad = (Eval3 lp0 vb0 ent0, s1)
      \<and> getitem (with_default_config conf default_config) ''ppo_steps'' = Inr (CInt n)
      \<and> 1 \<le> n
      \<and> evaluate_actions ext s1 b pad = (Eval4 lp1 vb1 ent1 sm1, s2)
      \<and> getitem (with_default_config conf default_config) ''target_kl'' = Inr t0
      \<and> num_of t0 = Inr tk0
      \<and> tk0 < masked_mean (map2 (-) (logprobs b) lp1) msk"
  define self where "self = optimizer_with conf"
  have cf: "config self = with_default_config conf default_config"
    by (simp add: self_def optimizer_with_def)
  obtain gpu where gpu: "getitem (config self) ''use_gpu'' = Inr gpu"
    unfolding cf using default_key_getitem [OF default_keys(1)] by blast
  define c where "c = loop_context ext self b msk pad vb0 ec"
  define v0 where "v0 = initial_vars s1 msk lp0 vb0 ent0"
  define v1 where "v1 = vars_after_eval v0 0 s2 lp1 vb1 ent1 sm1 c"
  have cs: "the_batch c = b" "padded c = pad" "cfg c = with_default_config conf default_config"
    "old_logprobs_batch c = logprobs b" "the_mask c = msk"
    by (simp_all add: c_def loop_context_def Let_def cf)
  have vs: "agent_state v0 = s1"
    by (simp add: v0_def initial_vars_def)
  have rng: "py_range (CInt n) = Inr (0 # [1 ..< nat n])"
    using h by (simp add: upt_conv_Cons)
  have l: "ppo_loop ext c (0 # [1 ..< nat n]) v0 = (None, v1)"
    unfolding v1_def using h by (intro ppo_loop_break kl_check_break) (auto simp: cs vs)
  have pad: "getitem (config self) ''pad_sequences'' = Inr pad"
    and steps: "getitem (config self) ''ppo_steps'' = Inr (CInt n)"
    and pm: "prepare_mask ext batch0 pad = (b, msk)"
    and ev: "evaluate_actions ext s0 b pad = (Eval3 lp0 vb0 ent0, s1)"
    and ec: "entropy_coeff_at (with_default_config conf default_config) step = Inr ec"
    using h by (simp_all add: cf)
  have "update_agent ext self agent_id batch0 ec s0 (map_of []) =
      (None, agent_state v1, training_metrics agent_id msk v1 (map_of []))"
    using update_agent_loop [OF gpu pad pm ev steps rng l [unfolded c_def v0_def]]
    by simp
  then have t: "train_on_data ext conf agent_id batch0 step s0 =
      (None, s2, training_metrics agent_id msk v1 (map_of []))"
    unfolding train_on_data_update_agent [OF ec] self_def
    by (simp add: v1_def vars_after_eval_def)
  have p1: "parameters s1 = parameters s0"
    using fwd [rule_format, of s0 b pad] h by simp
  have p2: "parameters s2 = parameters s1"
    using fwd [rule_format, of s1 b pad] h by simp
  show "fst (train_on_data ext conf agent_id batch0 step s0) = None"
    and "fst (snd (train_on_data ext conf agent_id batch0 step s0)) = s2"
    and "parameters (fst (snd (train_on_data ext conf agent_id batch0 step s0)))
          = parameters s0"
    unfolding t using p1 p2 by simp_all
qed

text \<open>
  On the example: the agent starts with the parameter \<open>- 1\<close>, the old log-probability is
  0 and the new one \<open>- 1\<close>, so the KL estimate 1 exceeds the default target 0.01 in
  iteration 0. The parameter is still \<open>- 1\<close> after the call; an optimizer step would have
  made it 0.
\<close>

theorem kl_early_stop_skips_update_witness:
  "fst (train_on_data (example_collaborators (Some 1)) (map_of []) ''agent'' example_batch 0
          (0, - 1)) = None
   \<and> fst (snd (train_on_data (example_collaborators (Some 1)) (map_of []) ''agent''
                 example_batch 0 (0, - 1))) = (2, - 1)
   \<and> snd (fst (snd (train_on_data (example_collaborators (Some 1)) (map_of []) ''agent''
                      example_batch 0 (0, - 1)))) = - 1
   \<and> optimizer_steps
        (snd (ppo_loop (example_collaborators (Some 1))
                (loop_context (example_collaborators (Some 1)) (optimizer_with (map_of []))
                   example_batch [1] (CBool False) [0] (1 / 10))
                [0, 1] (initial_vars (1, - 1) [1] [- 1] [0] [0]))) = 0"
proof -
  let ?ext = "example_collaborators (Some 1)"
  let ?c = "loop_context ?ext (optimizer_with (map_of [])) example_batch [1] (CBool False)
              [0] (1 / 10)"
  let ?v = "initial_vars (1 :: nat, - 1 :: real) [1] [- 1] [0] [0]"
  have fwd: "\<forall>s b p. snd (snd (evaluate_actions ?ext s b p)) = snd s"
    by (simp add: example_collaborators_def example_evaluate_def Let_def)
  have loop_hyps:
    "evaluate_actions ?ext (agent_state ?v) (the_batch ?c) (padded ?c)
        = (Eval4 [- 1] [0] [0] [[0]], (2, - 1))
      \<and> getitem (cfg ?c) ''target_kl'' = Inr (CFloat (1 / 100))
      \<and> num_of (CFloat (1 / 100)) = Inr (1 / 100)
      \<and> 1 / 100 < masked_mean (map2 (-) (old_logprobs_batch ?c) [- 1]) (the_mask ?c)"
    by (simp add: evaluation_rules)
  have call_hyps:
    "entropy_coeff_at (with_default_config (map_of []) default_config) 0 = Inr (1 / 10)
      \<and> getitem (with_default_config (map_of []) default_config) ''pad_sequences''
          = Inr (CBool False)
      \<and> prepare_mask ?ext example_batch (CBool False) = (example_batch, [1])
      \<and> evaluate_actions ?ext (0, - 1) example_batch (CBool False)
          = (Eval3 [- 1] [0] [0], (1, - 1))
      \<and> getitem (with_default_config (map_of []) default_config) ''ppo_steps''
          = Inr (CInt 25)
      \<and> (1 :: int) \<le> 25
      \<and> evaluate_actions ?ext (1, - 1) example_batch (CBool False)
          = (Eval4 [- 1] [0] [0] [[0]], (2, - 1))
      \<and> getitem (with_default_config (map_of []) default_config) ''target_kl''
          = Inr (CFloat (1 / 100))
      \<and> num_of (CFloat (1 / 100)) = Inr (1 / 100)
      \<and> 1 / 100 < masked_mean (map2 (-) (logprobs example_batch) [- 1]) [1]"
    by (simp add: evaluation_rules)
  note inst = kl_early_stop_skips_update [OF fwd, where v = ?v and c = ?c and lp = "[- 1]"
      and vb = "[0]" and ent = "[0]" and sm = "[[0]]" and s' = "(2, - 1)"
      and t = "CFloat (1 / 100)" and tk = "1 / 100" and i = 0 and rest = "[1]"
      and conf = "map_of []" and step = 0 and ec = "1 / 10" and pad = "CBool False"
      and ?batch0.0 = example_batch and b = example_batch and msk = "[1]" and ?s0.0 = "(0, - 1)"
      and ?lp0.0 = "[- 1]" and ?vb0.0 = "[0]" and ?ent0.0 = "[0]" and ?s1.0 = "(1, - 1)" and n = 25
      and ?lp1.0 = "[- 1]" and ?vb1.0 = "[0]" and ?ent1.0 = "[0]" and ?sm1.0 = "[[0]]"
      and ?s2.0 = "(2, - 1)" and ?t0.0 = "CFloat (1 / 100)" and ?tk0.0 = "1 / 100"
      and agent_id = "''agent''"]
  from inst loop_hyps call_hyps
  have "optimizer_steps (snd (ppo_loop ?ext ?c [0, 1] ?v)) = optimizer_steps ?v"
    and "fst (train_on_data ?ext (map_of []) ''agent'' example_batch 0 (0, - 1)) = None"
    and "fst (snd (train_on_data ?ext (map_of []) ''agent'' example_batch 0 (0, - 1)))
          = (2, - 1)"
    and "snd (fst (snd (train_on_data ?ext (map_of []) ''agent'' example_batch 0 (0, - 1))))
          = snd (0 :: nat, - 1 :: real)"
    by blast+
  then show ?thesis
    by (simp add: initial_vars_def)
qed

subsection \<open>The total loss\<close>

text \<open>
  Claim C8. Take an iteration whose clip parameter and value-loss coefficient are
  numbers, and whose \<^verbatim>\<open>sm_coeff\<close> is a number if skill modelling is on. The loss stage
  (lines 167 to 184) then leaves, whether it ends normally or not:

  \<^item> as policy loss, at each position, minus the smaller of ratio times advantage and
    the one-sided clipped advantage;
  \<^item> as value loss, at each position, the squared difference of value and discounted
    return;
  \<^item> when skill modelling is on, as skill loss, at each position, the squared
    differences of prediction and ground truth summed over the components of the skill
    vector;
  \<^item> as total loss, the masked mean of the policy loss, plus \<^verbatim>\<open>value_loss_coeff\<close> times
    the masked mean of the value loss, minus the entropy coefficient times the masked
    mean of the entropy, plus, when skill modelling is on, \<^verbatim>\<open>sm_coeff\<close> times the masked
    mean of the skill loss.

  \<^verbatim>\<open>config["use_sm"]\<close> is read after the three-term loss has been assigned: if the key is
  missing, as in the default configuration, the stage ends there with \<^verbatim>\<open>KeyError\<close> and the
  loss keeps the three-term value; otherwise the stage ends normally. In an iteration
  that has passed the KL check with variables \<open>v\<close>, this loss is the loss the iteration
  ends with: the update step does not change it.
\<close>

theorem total_loss_formula:
  assumes e: "num_of (clip_eps c) = Inr e"
    and vc: "getitem (cfg c) ''value_loss_coeff'' = Inr vc" and k: "num_of vc = Inr k"
    and sc: "truthy (dict_get (cfg c) ''use_sm'') \<longrightarrow>
               getitem (cfg c) ''sm_coeff'' = Inr sc \<and> num_of sc = Inr ks"
  shows
   "policy_loss (outcome_vars (compute_loss c v))
      = map uminus
          (map2 min
             (map2 (*) (map2 (\<lambda>l ol. exp (l - ol)) (logprob_batch v) (old_logprobs_batch c))
                (advantages_batch c))
             (map (\<lambda>a. if a > 0 then (1 + e) * a else (1 - e) * a) (advantages_batch c)))
    \<and> value_loss (outcome_vars (compute_loss c v))
      = map2 (\<lambda>x d. (x - d)\<^sup>2) (value_batch v) (discounted_batch c)
    \<and> (truthy (dict_get (cfg c) ''use_sm'') \<longrightarrow>
         sm_loss (outcome_vars (compute_loss c v))
           = map2 (\<lambda>p t. sum_list (map2 (\<lambda>a b. (a - b)\<^sup>2) p t)) (sm_batch v) (tom_batch c))
    \<and> loss (outcome_vars (compute_loss c v))
      = masked_mean (policy_loss (outcome_vars (compute_loss c v))) (the_mask c)
        + k * masked_mean (value_loss (outcome_vars (compute_loss c v))) (the_mask c)
        - entropy_coeff c * masked_mean (entropy_batch v) (the_mask c)
        + (if truthy (dict_get (cfg c) ''use_sm'')
           then ks * masked_mean (sm_loss (outcome_vars (compute_loss c v))) (the_mask c)
           else 0)
    \<and> (cfg c ''use_sm'' = None \<longrightarrow>
         compute_loss c v = Raised (KeyError ''use_sm'') (outcome_vars (compute_loss c v)))
    \<and> (cfg c ''use_sm'' \<noteq> None \<longrightarrow>
         compute_loss c v = Continued (outcome_vars (compute_loss c v)))
    \<and> (kl_check ext c i v0 = Continued v \<longrightarrow>
         loss (outcome_vars (ppo_iteration ext c i v0))
           = loss (outcome_vars (compute_loss c v)))"
proof -
  note cl = compute_loss_outcome [OF e vc k sc, of v]
  have it: "kl_check ext c i v0 = Continued v \<longrightarrow>
         loss (outcome_vars (ppo_iteration ext c i v0))
           = loss (outcome_vars (compute_loss c v))"
    by (cases "compute_loss c v")
       (simp_all add: ppo_iteration_def update_step_keeps_losses)
  show ?thesis
    using it unfolding cl
    by (simp add: surrogate_loss_def squared_error_def skill_loss_def Let_def)
qed

text \<open>
  On the two-position context, after a KL check that passes (the estimate is 0). The
  ratios are 1, so the policy loss is \<open>- min 2 2.2 = - 2\<close> and \<open>- min (- 3) (- 2.7) = 3\<close>,
  of mean 0.5; the value loss is \<open>(3 - 1)\<^sup>2\<close> and \<open>(1 - 3)\<^sup>2\<close>, of mean 4; the entropy has
  mean 0.5; the skill loss is \<open>(3 - 1)\<^sup>2 + (2 - 2)\<^sup>2 = 4\<close> and \<open>(0 - 0)\<^sup>2 + (0 - 1)\<^sup>2 = 1\<close>, of
  mean 2.5. With skill modelling on the total is
  \<open>0.5 + 0.1 * 4 - 0.1 * 0.5 + 0.5 * 2.5 = 2.1\<close> and the stage ends normally; with the
  default configuration it is \<open>0.5 + 0.1 * 4 - 0.1 * 0.5 = 0.85\<close> and the stage ends with
  \<^verbatim>\<open>KeyError\<close>.
\<close>

theorem total_loss_formula_witness:
  "num_of (clip_eps example_context_plain) = Inr (1 / 10)
   \<and> getitem (cfg example_context_plain) ''value_loss_coeff'' = Inr (CFloat (1 / 10))
   \<and> kl_check example_skill_collaborators example_context_sm 0 example_vars0
       = Continued example_vars
   \<and> policy_loss (outcome_vars (compute_loss example_context_sm example_vars)) = [- 2, 3]
   \<and> value_loss (outcome_vars (compute_loss example_context_sm example_vars)) = [4, 4]
   \<and> sm_loss (outcome_vars (compute_loss example_context_sm example_vars)) = [4, 1]
   \<and> loss (outcome_vars (compute_loss example_context_sm example_vars)) = 21 / 10
   \<and> compute_loss example_context_sm example_vars
       = Continued (outcome_vars (compute_loss example_context_sm example_vars))
   \<and> loss (outcome_vars
        (ppo_iteration example_skill_collaborators example_context_sm 0 example_vars0))
       = 21 / 10
   \<and> kl_check example_skill_collaborators example_context_plain 0 example_vars0
       = Continued example_vars
   \<and> loss (outcome_vars (compute_loss example_context_plain example_vars)) = 17 / 20
   \<and> compute_loss example_context_plain example_vars
       = Raised (KeyError ''use_sm'')
           (outcome_vars (compute_loss example_context_plain example_vars))
   \<and> loss (outcome_vars
        (ppo_iteration example_skill_collaborators example_context_plain 0 example_vars0))
       = 17 / 20"
proof -
  let ?on = example_context_sm
  let ?off = example_context_plain
  let ?ext = example_skill_collaborators
  have e: "num_of (clip_eps ?on) = Inr (1 / 10)" "num_of (clip_eps ?off) = Inr (1 / 10)"
    and vc: "getitem (cfg ?on) ''value_loss_coeff'' = Inr (CFloat (1 / 10))"
      "getitem (cfg ?off) ''value_loss_coeff'' = Inr (CFloat (1 / 10))"
    and k: "num_of (CFloat (1 / 10)) = Inr (1 / 10)"
    and sc_on: "truthy (dict_get (cfg ?on) ''use_sm'') \<longrightarrow>
        getitem (cfg ?on) ''sm_coeff'' = Inr (CFloat (1 / 2))
        \<and> num_of (CFloat (1 / 2)) = Inr (1 / 2)"
    and sc_off: "truthy (dict_get (cfg ?off) ''use_sm'') \<longrightarrow>
        getitem (cfg ?off) ''sm_coeff'' = Inr (CFloat (1 / 2))
        \<and> num_of (CFloat (1 / 2)) = Inr (1 / 2)"
    and u_on: "truthy (dict_get (cfg ?on) ''use_sm'')" "cfg ?on ''use_sm'' \<noteq> None"
    and u_off: "\<not> truthy (dict_get (cfg ?off) ''use_sm'')" "cfg ?off ''use_sm'' = None"
    by (simp_all add: example_context_sm_def example_context_plain_def example_context_def
        with_default_config_def default_config_def getitem_def dict_get_def)
  have kl_on: "kl_check ?ext ?on 0 example_vars0 = Continued example_vars"
    and kl_off: "kl_check ?ext ?off 0 example_vars0 = Continued example_vars"
    by (simp_all add: kl_check_def example_skill_collaborators_def example_vars0_def
        example_vars_def vars_after_eval_def initial_vars_def example_context_sm_def
        example_context_plain_def example_context_def with_default_config_def
        default_config_def getitem_def masked_mean_def Let_def)
  note on = total_loss_formula [OF e(1) vc(1) k sc_on, of example_vars ?ext 0 example_vars0]
  note off = total_loss_formula [OF e(2) vc(2) k sc_off, of example_vars ?ext 0 example_vars0]
  have vals: "logprob_batch example_vars = [0, 0]" "value_batch example_vars = [3, 1]"
    "entropy_batch example_vars = [1 / 2, 1 / 2]" "sm_batch example_vars = [[3, 2], [0, 0]]"
    "old_logprobs_batch ?on = [0, 0]" "advantages_batch ?on = [2, - 3]"
    "discounted_batch ?on = [1, 3]" "tom_batch ?on = [[1, 2], [0, 1]]" "the_mask ?on = [1, 1]"
    "entropy_coeff ?on = 1 / 10"
    "old_logprobs_batch ?off = [0, 0]" "advantages_batch ?off = [2, - 3]"
    "discounted_batch ?off = [1, 3]" "tom_batch ?off = [[1, 2], [0, 1]]" "the_mask ?off = [1, 1]"
    "entropy_coeff ?off = 1 / 10"
    by (simp_all add: example_vars_def example_vars0_def vars_after_eval_def
        example_context_sm_def example_context_plain_def example_context_def initial_vars_def)
  from on u_on have
    pl: "policy_loss (outcome_vars (compute_loss ?on example_vars)) = [- 2, 3]"
    and vl: "value_loss (outcome_vars (compute_loss ?on example_vars)) = [4, 4]"
    and sl: "sm_loss (outcome_vars (compute_loss ?on example_vars)) = [4, 1]"
    by (simp_all add: vals)
  from on u_on have l: "loss (outcome_vars (compute_loss ?on example_vars)) = 21 / 10"
    unfolding pl vl sl by (simp add: vals masked_mean_def)
  from on u_on have r: "compute_loss ?on example_vars
       = Continued (outcome_vars (compute_loss ?on example_vars))"
    by blast
  from on kl_on have it: "loss (outcome_vars (ppo_iteration ?ext ?on 0 example_vars0))
       = loss (outcome_vars (compute_loss ?on example_vars))"
    by blast
  from off have
    pl0: "policy_loss (outcome_vars (compute_loss ?off example_vars)) = [- 2, 3]"
    and vl0: "value_loss (outcome_vars (compute_loss ?off example_vars)) = [4, 4]"
    by (simp_all add: vals)
  from off u_off have l0: "loss (outcome_vars (compute_loss ?off example_vars)) = 17 / 20"
    unfolding pl0 vl0 by (simp add: vals masked_mean_def)
  from off u_off have r0: "compute_loss ?off example_vars
       = Raised (KeyError ''use_sm'') (outcome_vars (compute_loss ?off example_vars))"
    by blast
  from off kl_off have it0: "loss (outcome_vars (ppo_iteration ?ext ?off 0 example_vars0))
       = loss (outcome_vars (compute_loss ?off example_vars))"
    by blast
  show ?thesis
    using e(2) vc(2) kl_on kl_off pl vl sl l r l0 r0 it it0 by simp
qed

subsection \<open>The step budget\<close>

lemma ppo_iteration_continues:
  assumes evals: "\<forall>s. \<exists>lp vb ent sm s'.
        evaluate_actions ext s (the_batch c) (padded c) = (Eval4 lp vb ent sm, s')
        \<and> \<not> tk < masked_mean (map2 (-) (old_logprobs_batch c) lp) (the_mask c)"
    and t: "getitem (cfg c) ''target_kl'' = Inr t" "num_of t = Inr tk"
    and e: "num_of (clip_eps c) = Inr e"
    and vc: "getitem (cfg c) ''value_loss_coeff'' = Inr vc" "num_of vc = Inr k"
    and u: "getitem (cfg c) ''use_sm'' = Inr u"
    and sc: "truthy u \<longrightarrow> getitem (cfg c) ''sm_coeff'' = Inr sc \<and> num_of sc = Inr ks"
    and g: "getitem (cfg c) ''max_grad_norm'' = Inr g" "g = CNone \<or> num_of g = Inr x"
  shows "\<exists>v'. ppo_iteration ext c i v = Continued v'
      \<and> optimizer_steps v' = Suc (optimizer_steps v)
      \<and> backward_calls v' = Suc (backward_calls v)
      \<and> ppo_step v' = int i"
proof -
  obtain lp vb ent sm s' where
    ev: "evaluate_actions ext (agent_state v) (the_batch c) (padded c)
          = (Eval4 lp vb ent sm, s')"
    and kl: "\<not> tk < masked_mean (map2 (-) (old_logprobs_batch c) lp) (the_mask c)"
    using evals by blast
  define v1 where "v1 = vars_after_eval v i s' lp vb ent sm c"
  have k1: "kl_check ext c i v = Continued v1"
    unfolding v1_def using ev t kl by (rule kl_check_pass)
  obtain v2 where k2: "compute_loss c v1 = Continued v2"
    and same: "optimizer_steps v2 = optimizer_steps v1" "backward_calls v2 = backward_calls v1"
      "ppo_step v2 = ppo_step v1"
    using compute_loss_value [OF e vc u sc, of v1] by simp
  obtain v3 where k3: "update_step ext c v2 = Continued v3"
    and step: "optimizer_steps v3 = Suc (optimizer_steps v2)"
      "backward_calls v3 = Suc (backward_calls v2)" "ppo_step v3 = ppo_step v2"
    using update_step_continues [OF g, of ext v2] by blast
  have "ppo_iteration ext c i v = Continued v3"
    by (simp add: ppo_iteration_def k1 k2 k3)
  moreover have "optimizer_steps v3 = Suc (optimizer_steps v)"
    "backward_calls v3 = Suc (backward_calls v)" "ppo_step v3 = int i"
    using step same by (simp_all add: v1_def vars_after_eval_def)
  ultimately show ?thesis
    by blast
qed

text \<open>
  What holds of the step budget: when the configuration supplies every key the loop
  reads (with numeric values where arithmetic needs them), every evaluation in the loop
  returns four components and the KL estimate stays within the target, the loop runs
  through all its indices, each iteration calling \<^verbatim>\<open>loss.backward()\<close> and
  \<^verbatim>\<open>optimizer.step()\<close> once, and \<^verbatim>\<open>ppo_step\<close> ends as the last index.
\<close>

lemma ppo_loop_exhausts:
  assumes evals: "\<forall>s. \<exists>lp vb ent sm s'.
        evaluate_actions ext s (the_batch c) (padded c) = (Eval4 lp vb ent sm, s')
        \<and> \<not> tk < masked_mean (map2 (-) (old_logprobs_batch c) lp) (the_mask c)"
    and t: "getitem (cfg c) ''target_kl'' = Inr t" "num_of t = Inr tk"
    and e: "num_of (clip_eps c) = Inr e"
    and vc: "getitem (cfg c) ''value_loss_coeff'' = Inr vc" "num_of vc = Inr k"
    and u: "getitem (cfg c) ''use_sm'' = Inr u"
    and sc: "truthy u \<longrightarrow> getitem (cfg c) ''sm_coeff'' = Inr sc \<and> num_of sc = Inr ks"
    and g: "getitem (cfg c) ''max_grad_norm'' = Inr g" "g = CNone \<or> num_of g = Inr x"
  shows "\<exists>v'. ppo_loop ext c idxs v = (None, v')
      \<and> optimizer_steps v' = optimizer_steps v + length idxs
      \<and> backward_calls v' = backward_calls v + length idxs
      \<and> ppo_step v' = (if idxs = [] then ppo_step v else int (last idxs))"
proof (induction idxs arbitrary: v)
  case Nil
  then show ?case
    by simp
next
  case (Cons i rest)
  obtain v1 where it: "ppo_iteration ext c i v = Continued v1"
    and s1: "optimizer_steps v1 = Suc (optimizer_steps v)"
      "backward_calls v1 = Suc (backward_calls v)" "ppo_step v1 = int i"
    using ppo_iteration_continues [OF evals t e vc u sc g, of i v] by blast
  obtain v' where l: "ppo_loop ext c rest v1 = (None, v')"
    and s': "optimizer_steps v' = optimizer_steps v1 + length rest"
      "backward_calls v' = backward_calls v1 + length rest"
      "ppo_step v' = (if rest = [] then ppo_step v1 else int (last rest))"
    using Cons.IH [of v1] by blast
  have "ppo_loop ext c (i # rest) v = (None, v')"
    by (simp add: it l)
  then show ?case
    using s1 s' by auto
qed

text \<open>
  On the example, with \<^verbatim>\<open>use_sm\<close> supplied, a budget of 3 and a target the KL estimate
  never exceeds: three iterations, three optimizer steps (the parameter goes from \<open>- 1\<close>
  to 2), and 3 reported.
\<close>

lemma step_budget_example:
  "fst (train_on_data (example_collaborators (Some 1))
          (map_of [(''target_kl'', CFloat 1000), (''use_sm'', CBool False),
                   (''ppo_steps'', CInt 3)])
          ''agent'' example_batch 0 (0, - 1)) = None
   \<and> fst (snd (train_on_data (example_collaborators (Some 1))
          (map_of [(''target_kl'', CFloat 1000), (''use_sm'', CBool False),
                   (''ppo_steps'', CInt 3)])
          ''agent'' example_batch 0 (0, - 1))) = (4, 2)
   \<and> snd (snd (train_on_data (example_collaborators (Some 1))
          (map_of [(''target_kl'', CFloat 1000), (''use_sm'', CBool False),
                   (''ppo_steps'', CInt 3)])
          ''agent'' example_batch 0 (0, - 1))) ''agent/ppo_steps_made'' = Some 3"
  by (simp add: evaluation_rules)

text \<open>
  Claim C7 fails on the code, for want of a default. Take the default configuration but
  for a target of 1000, which the KL estimate (1 here) never exceeds, and an agent that
  passes both tuple assignments. The budget is 25 iterations; the first one passes the
  KL check and then raises \<^verbatim>\<open>KeyError\<close> at line 182, because the defaults have no
  \<^verbatim>\<open>use_sm\<close>. The agent has been evaluated twice and its parameter is still \<open>- 1\<close>: no
  optimizer step was applied, and no \<^verbatim>\<open>ppo_steps_made\<close> is recorded.
\<close>

theorem step_budget_not_reached_by_default:
  "getitem (config (optimizer_with (map_of [(''target_kl'', CFloat 1000)]))) ''ppo_steps''
     = Inr (CInt 25)
   \<and> fst (train_on_data (example_collaborators (Some 1)) (map_of [(''target_kl'', CFloat 1000)])
            ''agent'' example_batch 0 (0, - 1))
       = Some (KeyError ''use_sm'')
   \<and> fst (snd (train_on_data (example_collaborators (Some 1))
                 (map_of [(''target_kl'', CFloat 1000)]) ''agent'' example_batch 0 (0, - 1)))
       = (2, - 1)
   \<and> snd (snd (train_on_data (example_collaborators (Some 1))
                 (map_of [(''target_kl'', CFloat 1000)]) ''agent'' example_batch 0 (0, - 1)))
        ''agent/ppo_steps_made''
       = None"
  by (simp add: evaluation_rules)

subsection \<open>The reported number of steps\<close>

text \<open>
  Claim C1 fails on the code by one. When the KL estimate exceeds the target in
  iteration 0, the loop variable \<^verbatim>\<open>ppo_step\<close> is 0 at the \<^verbatim>\<open>break\<close>, and line 200 records
  \<^verbatim>\<open>ppo_step + 1\<close>: the metric is 1, although no update was made (the parameter of the
  agent is still \<open>- 1\<close>). The example is the one of the early stop above: default
  configuration, old log-probability 0, new log-probability \<open>- 1\<close>, KL estimate 1.
\<close>

theorem early_stop_reports_one_step:
  "fst (train_on_data (example_collaborators (Some 1)) (map_of []) ''agent'' example_batch 0
          (0, - 1)) = None
   \<and> fst (snd (train_on_data (example_collaborators (Some 1)) (map_of []) ''agent''
                 example_batch 0 (0, - 1))) = (2, - 1)
   \<and> snd (snd (train_on_data (example_collaborators (Some 1)) (map_of []) ''agent''
                 example_batch 0 (0, - 1))) ''agent/kl_divergence'' = Some 1
   \<and> snd (snd (train_on_data (example_collaborators (Some 1)) (map_of []) ''agent''
                 example_batch 0 (0, - 1))) ''agent/ppo_steps_made'' = Some 1"
  by (simp add: evaluation_rules)

subsection \<open>The validity mask without padding\<close>

lemma weighted_sum_ones:
  "sum_list (map2 (*) x (replicate (length x) (1 :: real))) = sum_list x"
  by (induction x) simp_all

lemma masked_mean_all_ones:
  "masked_mean x (replicate (length x) 1) = sum_list x / real (length x)"
  by (simp add: masked_mean_def weighted_sum_ones sum_list_replicate)

text \<open>
  Claim C9. Let \<^verbatim>\<open>config["pad_sequences"]\<close> be false, and call \<open>ones\<close> the tensor of ones of
  the shape of the agent's reward array. Then line 110 leaves the batch as it is and
  makes \<open>ones\<close> the mask, and the update of the agent is the loop run in a context whose
  mask is \<open>ones\<close> and whose advantages are normalised under \<open>ones\<close>, followed by the
  metrics taken under \<open>ones\<close>. In that context the KL estimate of an iteration is the
  masked mean under \<open>ones\<close> of the differences of old and new log-probabilities, and the
  total loss is built from masked means under \<open>ones\<close>. The \<^verbatim>\<open>total_steps\<close> metric is the
  number of positions of the batch, and a masked mean under \<open>ones\<close> is the ordinary mean:
  every position counts as valid.
\<close>

theorem unpadded_mask_all_ones:
  assumes gpu: "getitem (config self) ''use_gpu'' = Inr gpu"
    and pad: "getitem (config self) ''pad_sequences'' = Inr pad"
    and falsy: "\<not> truthy pad"
  shows
   "(let ones = replicate (length (rewards batch0)) 1;
         discounted =
           discount_rewards_to_go ext (rewards batch0) (dones batch0) (gamma self) pad;
         c = \<lparr>cfg = config self, clip_eps = eps self, padded = pad, the_batch = batch0,
              the_mask = ones, old_logprobs_batch = logprobs batch0,
              advantages_batch = normalized_advantages discounted vb ones,
              discounted_batch = discounted, tom_batch = toms batch0, entropy_coeff = ec\<rparr>;
         r = ppo_loop ext c steps (initial_vars s1 ones lp vb ent)
     in prepare_mask ext batch0 pad = (batch0, ones)
        \<and> (evaluate_actions ext s0 batch0 pad = (Eval3 lp vb ent, s1)
            \<and> getitem (config self) ''ppo_steps'' = Inr n \<and> py_range n = Inr steps
           \<longrightarrow> update_agent ext self agent_id batch0 ec s0 metrics =
                 (case fst r of
                    Some e \<Rightarrow> (Some e, agent_state (snd r), metrics)
                  | None \<Rightarrow>
                      (None, agent_state (snd r),
                       training_metrics agent_id ones (snd r) metrics)))
        \<and> (evaluate_actions ext (agent_state w) batch0 pad = (Eval4 lp' vb' ent' sm', s2)
           \<longrightarrow> kl_divergence (outcome_vars (kl_check ext c i w))
                 = masked_mean (map2 (-) (logprobs batch0) lp') ones)
        \<and> (num_of (eps self) = Inr e
            \<and> getitem (config self) ''value_loss_coeff'' = Inr vc \<and> num_of vc = Inr k
            \<and> (truthy (dict_get (config self) ''use_sm'') \<longrightarrow>
                 getitem (config self) ''sm_coeff'' = Inr sc \<and> num_of sc = Inr ks)
           \<longrightarrow> loss (outcome_vars (compute_loss c w))
                 = masked_mean (policy_loss (outcome_vars (compute_loss c w))) ones
                   + k * masked_mean (value_loss (outcome_vars (compute_loss c w))) ones
                   - ec * masked_mean (entropy_batch w) ones
                   + (if truthy (dict_get (config self) ''use_sm'')
                      then ks * masked_mean (sm_loss (outcome_vars (compute_loss c w))) ones
                      else 0))
        \<and> training_metrics agent_id ones v metrics (agent_id @ ''/total_steps'')
            = Some (real (length (rewards batch0)))
        \<and> (\<forall>x. length x = length (rewards batch0) \<longrightarrow>
              masked_mean x ones = sum_list x / real (length x)))"
proof -
  define ones :: "real list" where "ones = replicate (length (rewards batch0)) 1"
  define c where "c = loop_context ext self batch0 ones pad vb ec"
  define r where "r = ppo_loop ext c steps (initial_vars s1 ones lp vb ent)"
  have c: "cfg c = config self" "clip_eps c = eps self" "padded c = pad"
    "the_batch c = batch0" "the_mask c = ones" "old_logprobs_batch c = logprobs batch0"
    "entropy_coeff c = ec"
    by (simp_all add: c_def loop_context_def Let_def)
  have pm: "prepare_mask ext batch0 pad = (batch0, ones)"
    using falsy by (simp add: prepare_mask_def ones_def)
  have ua: "update_agent ext self agent_id batch0 ec s0 metrics =
                 (case fst r of
                    Some e \<Rightarrow> (Some e, agent_state (snd r), metrics)
                  | None \<Rightarrow>
                      (None, agent_state (snd r),
                       training_metrics agent_id ones (snd r) metrics))"
    if "evaluate_actions ext s0 batch0 pad = (Eval3 lp vb ent, s1)"
      and "getitem (config self) ''ppo_steps'' = Inr n" and "py_range n = Inr steps"
    using update_agent_loop [OF gpu pad pm that, of ec "fst r" "snd r" agent_id metrics]
    by (simp add: r_def c_def)
  have kl: "kl_divergence (outcome_vars (kl_check ext c i w))
                 = masked_mean (map2 (-) (logprobs batch0) lp') ones"
    if "evaluate_actions ext (agent_state w) batch0 pad = (Eval4 lp' vb' ent' sm', s2)"
    using kl_check_estimate [of ext w c lp' vb' ent' sm' s2 i] that by (simp add: c)
  have ls: "loss (outcome_vars (compute_loss c w))
                 = masked_mean (policy_loss (outcome_vars (compute_loss c w))) ones
                   + k * masked_mean (value_loss (outcome_vars (compute_loss c w))) ones
                   - ec * masked_mean (entropy_batch w) ones
                   + (if truthy (dict_get (config self) ''use_sm'')
                      then ks * masked_mean (sm_loss (outcome_vars (compute_loss c w))) ones
                      else 0)"
    if "num_of (eps self) = Inr e" and "getitem (config self) ''value_loss_coeff'' = Inr vc"
      and "num_of vc = Inr k"
      and "truthy (dict_get (config self) ''use_sm'') \<longrightarrow>
                 getitem (config self) ''sm_coeff'' = Inr sc \<and> num_of sc = Inr ks"
    using compute_loss_outcome [of c e vc k sc ks w] that by (simp add: c)
  have ts: "training_metrics agent_id ones v metrics (agent_id @ ''/total_steps'')
            = Some (real (length (rewards batch0)))"
    by (simp add: training_metrics_def ones_def sum_list_replicate)
  have mean: "masked_mean x ones = sum_list x / real (length x)"
    if "length x = length (rewards batch0)" for x
    using masked_mean_all_ones [of x] that by (simp add: ones_def)
  show ?thesis
    using pm ua kl ls ts mean
    unfolding Let_def ones_def r_def c_def loop_context_def
    by blast
qed

text \<open>
  On the batch of three positions with the default configuration: the mask is
  \<open>[1, 1, 1]\<close>; the agent returns log-probability \<open>- 1\<close> everywhere, so the KL estimate of
  the first iteration is the mean of \<open>1 - (- 1)\<close>, \<open>0 - (- 1)\<close> and \<open>- 1 - (- 1)\<close>, which is 1,
  and the loop stops there; \<^verbatim>\<open>total_steps\<close> is 3. With values 0 and entropies 1 the value
  loss is \<open>[1, 0, 4]\<close>, so the loss is the mean policy loss plus
  \<open>0.1 * 5 / 3 - 0.1 * 1 = 1 / 15\<close>.
\<close>

theorem unpadded_mask_all_ones_witness:
  "getitem (config (optimizer_with (map_of []))) ''pad_sequences'' = Inr (CBool False)
   \<and> \<not> truthy (CBool False)
   \<and> prepare_mask (example_collaborators (Some 1)) example_batch3 (CBool False)
       = (example_batch3, [1, 1, 1])
   \<and> fst (update_agent (example_collaborators (Some 1)) (optimizer_with (map_of [])) ''agent''
            example_batch3 (1 / 10) (0, - 1) (map_of [])) = None
   \<and> snd (snd (update_agent (example_collaborators (Some 1)) (optimizer_with (map_of []))
                 ''agent'' example_batch3 (1 / 10) (0, - 1) (map_of [])))
        ''agent/kl_divergence'' = Some 1
   \<and> snd (snd (update_agent (example_collaborators (Some 1)) (optimizer_with (map_of []))
                 ''agent'' example_batch3 (1 / 10) (0, - 1) (map_of [])))
        ''agent/total_steps'' = Some 3
   \<and> kl_divergence (outcome_vars (kl_check (example_collaborators (Some 1))
        (loop_context (example_collaborators (Some 1)) (optimizer_with (map_of []))
           example_batch3 [1, 1, 1] (CBool False) [0, 0, 0] (1 / 10))
        0 (initial_vars (1, - 1) [1, 1, 1] [1, 0, - 1] [0, 0, 0] [1, 1, 1]))) = 1
   \<and> loss (outcome_vars (compute_loss
        (loop_context (example_collaborators (Some 1)) (optimizer_with (map_of []))
           example_batch3 [1, 1, 1] (CBool False) [0, 0, 0] (1 / 10))
        (initial_vars (1 :: nat, - 1 :: real) [1, 1, 1] [1, 0, - 1] [0, 0, 0] [1, 1, 1])))
      = masked_mean (policy_loss (outcome_vars (compute_loss
          (loop_context (example_collaborators (Some 1)) (optimizer_with (map_of []))
             example_batch3 [1, 1, 1] (CBool False) [0, 0, 0] (1 / 10))
          (initial_vars (1 :: nat, - 1 :: real) [1, 1, 1] [1, 0, - 1] [0, 0, 0] [1, 1, 1]))))
          [1, 1, 1]
        + 1 / 15
   \<and> masked_mean [2, 1, 0] [1, 1, 1] = 1"
proof -
  let ?ext = "example_collaborators (Some 1)"
  let ?self = "optimizer_with (map_of [])"
  let ?c = "loop_context ?ext ?self example_batch3 [1, 1, 1] (CBool False) [0, 0, 0] (1 / 10)"
  let ?w = "initial_vars (1 :: nat, - 1 :: real) [1, 1, 1] [1, 0, - 1] [0, 0, 0] [1, 1, 1]"
  have gpu: "getitem (config ?self) ''use_gpu'' = Inr (CBool False)"
    and pad: "getitem (config ?self) ''pad_sequences'' = Inr (CBool False)"
    and n: "getitem (config ?self) ''ppo_steps'' = Inr (CInt 25)"
    and e: "num_of (eps ?self) = Inr (1 / 10)"
    and vc: "getitem (config ?self) ''value_loss_coeff'' = Inr (CFloat (1 / 10))"
    and k: "num_of (CFloat (1 / 10)) = Inr (1 / 10)"
    and sc: "truthy (dict_get (config ?self) ''use_sm'') \<longrightarrow>
       getitem (config ?self) ''sm_coeff'' = Inr CNone \<and> num_of CNone = Inr 0"
    by (simp_all add: optimizer_with_def with_default_config_def default_config_def getitem_def
        dict_get_def)
  have falsy: "\<not> truthy (CBool False)"
    by simp
  have ev: "evaluate_actions ?ext (0, - 1) example_batch3 (CBool False)
      = (Eval3 [- 1, - 1, - 1] [0, 0, 0] [0, 0, 0], (1, - 1))"
    by (simp add: example_collaborators_def example_evaluate_def example_batch3_def Let_def)
  have ev4: "evaluate_actions ?ext (agent_state ?w) example_batch3 (CBool False)
      = (Eval4 [- 1, - 1, - 1] [0, 0, 0] [0, 0, 0] [[0], [0], [0]], (2, - 1))"
    by (simp add: example_collaborators_def example_evaluate_def example_batch3_def Let_def
        initial_vars_def numeral_2_eq_2)
  have rng: "py_range (CInt 25) = Inr [0 ..< 25]"
    by simp
  note inst = unpadded_mask_all_ones [OF gpu pad falsy, where ext = ?ext
      and ?batch0.0 = example_batch3 and ?s0.0 = "(0, - 1)" and lp = "[- 1, - 1, - 1]"
      and vb = "[0, 0, 0]" and ent = "[0, 0, 0]" and ?s1.0 = "(1, - 1)" and n = "CInt 25"
      and steps = "[0 ..< 25]" and agent_id = "''agent''" and ec = "1 / 10"
      and metrics = "map_of []" and v = "?w" and w = "?w" and i = 0
      and lp' = "[- 1, - 1, - 1]" and vb' = "[0, 0, 0]" and ent' = "[0, 0, 0]"
      and sm' = "[[0], [0], [0]]" and ?s2.0 = "(2, - 1)" and e = "1 / 10"
      and vc = "CFloat (1 / 10)" and k = "1 / 10" and sc = CNone and ks = 0,
      unfolded Let_def]
  note pm = inst [THEN conjunct1]
  note ua = inst [THEN conjunct2, THEN conjunct1, THEN mp, OF conjI [OF ev conjI [OF n rng]]]
  note kl = inst [THEN conjunct2, THEN conjunct2, THEN conjunct1, THEN mp, OF ev4]
  note ls = inst [THEN conjunct2, THEN conjunct2, THEN conjunct2, THEN conjunct1, THEN mp,
      OF conjI [OF e conjI [OF vc conjI [OF k sc]]]]
  note mean = inst [THEN conjunct2, THEN conjunct2, THEN conjunct2, THEN conjunct2,
      THEN conjunct2, THEN spec, where x = "[2, 1, 0]"]
  have "prepare_mask ?ext example_batch3 (CBool False) = (example_batch3, [1, 1, 1])"
    using pm by (simp add: example_batch3_def numeral_3_eq_3)
  moreover have "masked_mean [2, 1, 0] [1, 1, 1] = 1"
    using mean by (simp add: example_batch3_def numeral_3_eq_3)
  moreover have
    "fst (update_agent ?ext ?self ''agent'' example_batch3 (1 / 10) (0, - 1) (map_of [])) = None"
    "snd (snd (update_agent ?ext ?self ''agent'' example_batch3 (1 / 10) (0, - 1) (map_of [])))
        ''agent/kl_divergence'' = Some 1"
    "snd (snd (update_agent ?ext ?self ''agent'' example_batch3 (1 / 10) (0, - 1) (map_of [])))
        ''agent/total_steps'' = Some 3"
    unfolding ua
    by (simp_all add: optimizer_with_def with_default_config_def default_config_def
        getitem_def dict_get_def example_collaborators_def example_evaluate_def
        example_batch3_def initial_vars_def normalized_advantages_def centred_advantages_def
        masked_mean_def ppo_iteration_def kl_check_def training_metrics_def Let_def
        upt_conv_Cons numeral_3_eq_3)
  moreover have "kl_divergence (outcome_vars (kl_check ?ext ?c 0 ?w)) = 1"
    using kl
    by (simp add: loop_context_def Let_def example_batch3_def numeral_3_eq_3 masked_mean_def)
  moreover have vl: "value_loss (outcome_vars (compute_loss ?c ?w)) = [1, 0, 4]"
    using e vc k
    by (simp add: compute_loss_def loop_context_def Let_def example_batch3_def
        squared_error_def optimizer_with_def with_default_config_def default_config_def
        getitem_def dict_get_def example_collaborators_def initial_vars_def)
  have "loss (outcome_vars (compute_loss ?c ?w))
      = masked_mean (policy_loss (outcome_vars (compute_loss ?c ?w))) [1, 1, 1] + 1 / 15"
    using ls vl
    by (simp add: loop_context_def Let_def example_batch3_def numeral_3_eq_3 masked_mean_def
        optimizer_with_def with_default_config_def default_config_def dict_get_def
        initial_vars_def)
  ultimately show ?thesis
    using pad falsy by simp
qed

end
